theory Spec2Isabelle
  imports Complex_Main "HOL-Library.Word"
begin

section \<open>C values\<close>

text \<open>
  A C \<^verbatim>\<open>double\<close> or \<^verbatim>\<open>float\<close> is a number, an infinity or a NaN. The rounding of
  arithmetic results and the sign of zero are not modelled; the comparisons, which steer
  the control flow of \<^verbatim>\<open>processClient\<close> and \<^verbatim>\<open>lostInSpace\<close>, are exact in IEEE 754
  and are modelled in full: every comparison with a NaN is false, except \<^verbatim>\<open>!=\<close>.
\<close>

datatype cdouble = Num real | PInf | MInf | NaN

type_synonym cfloat = cdouble

text \<open>\<^verbatim>\<open>int\<close> and \<^verbatim>\<open>unsigned\<close> are 32 bits wide; \<open>sint\<close> reads an \<^verbatim>\<open>int\<close>.\<close>

type_synonym cint = "32 word"
type_synonym cuint = "32 word"

fun c_lt :: "cdouble \<Rightarrow> cdouble \<Rightarrow> bool" where
  "c_lt NaN b = False"
| "c_lt a NaN = False"
| "c_lt (Num x) (Num y) = (x < y)"
| "c_lt a MInf = False"
| "c_lt MInf b = True"
| "c_lt PInf b = False"
| "c_lt a PInf = True"

fun c_eq :: "cdouble \<Rightarrow> cdouble \<Rightarrow> bool" where
  "c_eq NaN b = False"
| "c_eq a NaN = False"
| "c_eq a b = (a = b)"

definition c_ne :: "cdouble \<Rightarrow> cdouble \<Rightarrow> bool" where
  "c_ne a b = (\<not> c_eq a b)"

definition c_ge :: "cdouble \<Rightarrow> cdouble \<Rightarrow> bool" where
  "c_ge a b = (c_lt b a \<or> c_eq a b)"

fun c_ceil :: "cdouble \<Rightarrow> cdouble" where
  "c_ceil (Num x) = Num (of_int \<lceil>x\<rceil>)"
| "c_ceil a = a"

definition c_of_int :: "int \<Rightarrow> cdouble" where
  "c_of_int i = Num (of_int i)"

text \<open>Arithmetic, exact on numbers, with the IEEE rules for the infinities and NaN.\<close>

fun c_neg :: "cdouble \<Rightarrow> cdouble" where
  "c_neg (Num x) = Num (- x)"
| "c_neg PInf = MInf"
| "c_neg MInf = PInf"
| "c_neg NaN = NaN"

fun c_add :: "cdouble \<Rightarrow> cdouble \<Rightarrow> cdouble" where
  "c_add NaN b = NaN"
| "c_add a NaN = NaN"
| "c_add (Num x) (Num y) = Num (x + y)"
| "c_add PInf MInf = NaN"
| "c_add MInf PInf = NaN"
| "c_add (Num x) b = b"
| "c_add a b = a"

definition c_sub :: "cdouble \<Rightarrow> cdouble \<Rightarrow> cdouble" where
  "c_sub a b = c_add a (c_neg b)"

fun c_sgn :: "cdouble \<Rightarrow> real" where
  "c_sgn (Num x) = sgn x"
| "c_sgn PInf = 1"
| "c_sgn MInf = - 1"
| "c_sgn NaN = 0"

definition signed_inf :: "real \<Rightarrow> cdouble" where
  "signed_inf s = (if 0 < s then PInf else if s < 0 then MInf else NaN)"

fun c_mul :: "cdouble \<Rightarrow> cdouble \<Rightarrow> cdouble" where
  "c_mul NaN b = NaN"
| "c_mul a NaN = NaN"
| "c_mul (Num x) (Num y) = Num (x * y)"
| "c_mul a b = signed_inf (c_sgn a * c_sgn b)"

text \<open>Division; a zero divisor is taken as \<open>+0\<close>.\<close>

fun c_div :: "cdouble \<Rightarrow> cdouble \<Rightarrow> cdouble" where
  "c_div NaN b = NaN"
| "c_div a NaN = NaN"
| "c_div (Num x) (Num y) = (if y = 0 then signed_inf x else Num (x / y))"
| "c_div (Num x) b = Num 0"
| "c_div a (Num y) = signed_inf (c_sgn a * (if y < 0 then - 1 else 1))"
| "c_div a b = NaN"

text \<open>
  Conversion of a floating value to \<^verbatim>\<open>int\<close> discards the fractional part; when the
  integral part is not representable (also for an infinity or a NaN) the behaviour of
  the C program is undefined, which is \<open>None\<close> here.
\<close>

definition trunc :: "real \<Rightarrow> int" where
  "trunc x = (if 0 \<le> x then \<lfloor>x\<rfloor> else \<lceil>x\<rceil>)"

fun f2i :: "cdouble \<Rightarrow> cint option" where
  "f2i (Num x) =
     (if - 2147483648 \<le> trunc x \<and> trunc x \<le> 2147483647
      then Some (word_of_int (trunc x)) else None)"
| "f2i a = None"

datatype fault = Undefined_conversion

section \<open>The shared records\<close>

text \<open>
  Modelled from the spec: \<^verbatim>\<open>struct astrometry\<close>, whose declaration (\<^verbatim>\<open>astrometry.h\<close>) is
  not among the sources. The spec lists, for the astrometry state, the capture timestamp,
  the odds threshold, the observer's latitude, longitude and height, and the solved right
  ascension, declination, field rotation, pixel scale, image rotation, altitude and
  azimuth; the names and the order are those of the initialiser of \<^verbatim>\<open>all_astro_params\<close>
  in \<^verbatim>\<open>astrometry.c\<close>, where every field is printed or assigned as a \<^verbatim>\<open>double\<close>.
\<close>

record astrometry =
  rawtime :: cdouble
  logodds :: cdouble
  latitude :: cdouble
  longitude :: cdouble
  hm :: cdouble
  ra :: cdouble
  dec :: cdouble
  fr :: cdouble
  ps :: cdouble
  ir :: cdouble
  alt :: cdouble
  az :: cdouble

text \<open>
  Modelled from the spec: \<^verbatim>\<open>struct camera_params\<close>, whose declaration
  (\<^verbatim>\<open>lens_adapter.h\<close>) is not among the sources. The spec lists the exposure time, the
  exposure-change flag, the focus mode, positions and step bounds, the infinity-focus
  flag, the aperture step count and the max-aperture flag; the names are those
  \<^verbatim>\<open>processClient\<close> assigns. \<open>exposure_time\<close> is an argument of \<^verbatim>\<open>ceil\<close>; the fields that
  receive an \<^verbatim>\<open>int\<close> of the command are taken as \<^verbatim>\<open>int\<close>; the type \<open>'fp\<close> of
  \<open>focus_position\<close>, which receives a \<^verbatim>\<open>float\<close>, is a parameter.
\<close>

record 'fp camera_params =
  exposure_time :: cdouble
  change_exposure_bool :: cint
  focus_mode :: cint
  start_focus_pos :: cint
  end_focus_pos :: cint
  focus_step :: cint
  focus_inf :: cint
  focus_position :: 'fp
  max_aperture :: cint
  aperture_steps :: cint

text \<open>\<^verbatim>\<open>struct blob_params\<close> of \<^verbatim>\<open>camera.h\<close>.\<close>

record blob_params =
  spike_limit :: cint
  dynamic_hot_pixels :: cint
  r_smooth :: cint
  high_pass_filter :: cint
  r_high_pass_filter :: cint
  centroid_search_border :: cint
  filter_return_image :: cint
  n_sigma :: cfloat
  unique_star_spacing :: cint
  make_static_hp_mask :: cint
  use_static_hp_mask :: cint

text \<open>
  \<^verbatim>\<open>struct commands\<close>; the fields carry the prefix \<open>cmd_\<close>, since several names are
  those of fields above. The array \<^verbatim>\<open>float blob_params[9]\<close> is a function of the
  index; the program reads the indices 0 to 8 only.
\<close>

record commands =
  cmd_logodds :: cdouble
  cmd_latitude :: cdouble
  cmd_longitude :: cdouble
  cmd_height :: cdouble
  cmd_exposure :: cdouble
  cmd_focus_pos :: cfloat
  cmd_focus_mode :: cint
  cmd_start_focus_pos :: cint
  cmd_end_focus_pos :: cint
  cmd_focus_step :: cint
  cmd_set_focus_inf :: cint
  cmd_aperture_steps :: cint
  cmd_set_max_aperture :: cint
  cmd_make_hp :: cint
  cmd_use_hp :: cint
  cmd_blob_params :: "nat \<Rightarrow> cfloat"

text \<open>The three global structures \<^verbatim>\<open>all_astro_params\<close>, \<^verbatim>\<open>all_camera_params\<close>,
  \<^verbatim>\<open>all_blob_params\<close>.\<close>

record 'fp store =
  all_astro_params :: astrometry
  all_camera_params :: "'fp camera_params"
  all_blob_params :: blob_params

section \<open>Applying a command (\<^verbatim>\<open>processClient\<close>, the branch of a received command)\<close>

text \<open>The assignments to \<^verbatim>\<open>all_astro_params\<close>.\<close>

definition merge_astro :: "commands \<Rightarrow> astrometry \<Rightarrow> astrometry" where
  "merge_astro c a =
     a\<lparr>logodds := cmd_logodds c, latitude := cmd_latitude c,
       longitude := cmd_longitude c, hm := cmd_height c\<rparr>"

text \<open>The exposure: \<^verbatim>\<open>if (ceil(all_cmds.exposure) != ceil(all_camera_params.exposure_time))\<close>.\<close>

definition exposure_differs :: "commands \<Rightarrow> 'fp camera_params \<Rightarrow> bool" where
  "exposure_differs c p = c_ne (c_ceil (cmd_exposure c)) (c_ceil (exposure_time p))"

definition merge_exposure :: "commands \<Rightarrow> 'fp camera_params \<Rightarrow> 'fp camera_params" where
  "merge_exposure c p =
     (if exposure_differs c p
      then p\<lparr>exposure_time := cmd_exposure c, change_exposure_bool := 1\<rparr>
      else p)"

text \<open>
  The focus and aperture fields. \<open>cvt\<close> is the conversion of the \<^verbatim>\<open>float\<close> command to the
  type of \<open>focus_position\<close>, \<open>None\<close> where it is undefined.
\<close>

definition bind_fault :: "fault + 'a \<Rightarrow> ('a \<Rightarrow> fault + 'b) \<Rightarrow> fault + 'b" where
  "bind_fault r f = (case r of Inl e \<Rightarrow> Inl e | Inr x \<Rightarrow> f x)"

definition merge_focus ::
  "(cfloat \<Rightarrow> 'fp option) \<Rightarrow> commands \<Rightarrow> 'fp camera_params \<Rightarrow> fault + 'fp camera_params" where
  "merge_focus cvt c p =
     (let p1 = p\<lparr>focus_mode := cmd_focus_mode c,
                 start_focus_pos := cmd_start_focus_pos c,
                 end_focus_pos := cmd_end_focus_pos c,
                 focus_step := cmd_focus_step c,
                 focus_inf := cmd_set_focus_inf c\<rparr>
      in bind_fault
           (if c_ne (cmd_focus_pos c) (c_of_int (- 1))
            then (case cvt (cmd_focus_pos c) of
                    None \<Rightarrow> Inl Undefined_conversion
                  | Some v \<Rightarrow> Inr (p1\<lparr>focus_position := v\<rparr>))
            else Inr p1)
           (\<lambda>p2. Inr (p2\<lparr>max_aperture := cmd_set_max_aperture c,
                          aperture_steps := cmd_aperture_steps c\<rparr>)))"

definition merge_camera ::
  "(cfloat \<Rightarrow> 'fp option) \<Rightarrow> commands \<Rightarrow> 'fp camera_params \<Rightarrow> fault + 'fp camera_params" where
  "merge_camera cvt c p = merge_focus cvt c (merge_exposure c p)"

text \<open>Lines 152 to 179: what \<^verbatim>\<open>processClient\<close> assigns before it calls
  \<^verbatim>\<open>adjustCameraHardware\<close>.\<close>

definition merge_before_hw ::
  "(cfloat \<Rightarrow> 'fp option) \<Rightarrow> commands \<Rightarrow> 'fp store \<Rightarrow> fault + 'fp store" where
  "merge_before_hw cvt c s =
     (let s1 = s\<lparr>all_astro_params := merge_astro c (all_astro_params s)\<rparr>
      in bind_fault (merge_camera cvt c (all_camera_params s1)) (\<lambda>p.
           Inr (s1\<lparr>all_camera_params := p\<rparr>)))"

text \<open>
  An assignment of a \<^verbatim>\<open>float\<close> to an \<^verbatim>\<open>int\<close> field of \<^verbatim>\<open>all_blob_params\<close>, plain or
  under the guard \<^verbatim>\<open>>= 0\<close>.
\<close>

definition store_int ::
  "cfloat \<Rightarrow> (cint \<Rightarrow> blob_params \<Rightarrow> blob_params) \<Rightarrow> blob_params \<Rightarrow> fault + blob_params" where
  "store_int v upd b =
     (case f2i v of None \<Rightarrow> Inl Undefined_conversion | Some i \<Rightarrow> Inr (upd i b))"

definition guarded_int ::
  "cfloat \<Rightarrow> (cint \<Rightarrow> blob_params \<Rightarrow> blob_params) \<Rightarrow> blob_params \<Rightarrow> fault + blob_params" where
  "guarded_int v upd b = (if c_ge v (c_of_int 0) then store_int v upd b else Inr b)"

definition merge_blob :: "commands \<Rightarrow> blob_params \<Rightarrow> fault + blob_params" where
  "merge_blob c b =
     (let bp = cmd_blob_params c;
          b0 = b\<lparr>make_static_hp_mask := cmd_make_hp c, use_static_hp_mask := cmd_use_hp c\<rparr>
      in
      bind_fault (guarded_int (bp 0) (\<lambda>i x. x\<lparr>spike_limit := i\<rparr>) b0) (\<lambda>b1.
      bind_fault (store_int (bp 1) (\<lambda>i x. x\<lparr>dynamic_hot_pixels := i\<rparr>) b1) (\<lambda>b2.
      bind_fault (guarded_int (bp 2) (\<lambda>i x. x\<lparr>r_smooth := i\<rparr>) b2) (\<lambda>b3.
      bind_fault (store_int (bp 3) (\<lambda>i x. x\<lparr>high_pass_filter := i\<rparr>) b3) (\<lambda>b4.
      bind_fault (guarded_int (bp 4) (\<lambda>i x. x\<lparr>r_high_pass_filter := i\<rparr>) b4) (\<lambda>b5.
      bind_fault (guarded_int (bp 5) (\<lambda>i x. x\<lparr>centroid_search_border := i\<rparr>) b5) (\<lambda>b6.
      bind_fault (store_int (bp 6) (\<lambda>i x. x\<lparr>filter_return_image := i\<rparr>) b6) (\<lambda>b7.
      let b8 = (if c_ge (bp 7) (c_of_int 0) then b7\<lparr>n_sigma := bp 7\<rparr> else b7)
      in guarded_int (bp 8) (\<lambda>i x. x\<lparr>unique_star_spacing := i\<rparr>) b8))))))))"

text \<open>Lines 186 to 217: the blob parameters, assigned after the call.\<close>

definition merge_after_hw :: "commands \<Rightarrow> 'fp store \<Rightarrow> fault + 'fp store" where
  "merge_after_hw c s =
     bind_fault (merge_blob c (all_blob_params s)) (\<lambda>b. Inr (s\<lparr>all_blob_params := b\<rparr>))"

text \<open>
  The whole branch. \<^verbatim>\<open>adjustCameraHardware\<close> (of \<^verbatim>\<open>lens_adapter.c\<close>) is the parameter
  \<open>hw\<close>, free to change the three structures.
\<close>

definition apply_commands ::
  "(cfloat \<Rightarrow> 'fp option) \<Rightarrow> ('fp store \<Rightarrow> 'fp store) \<Rightarrow> commands \<Rightarrow> 'fp store \<Rightarrow> fault + 'fp store" where
  "apply_commands cvt hw c s =
     bind_fault (merge_before_hw cvt c s) (\<lambda>s0. merge_after_hw c (hw s0))"

section \<open>A client session (\<^verbatim>\<open>processClient\<close>)\<close>

text \<open>Constants of \<^verbatim>\<open>camera.h\<close>.\<close>

definition CAMERA_WIDTH :: int where "CAMERA_WIDTH = 1936"
definition CAMERA_HEIGHT :: int where "CAMERA_HEIGHT = 1216"
definition CAMERA_MARGIN :: int where "CAMERA_MARGIN = 0"
definition MIN_PS :: real where "MIN_PS = 6.0"
definition MAX_PS :: real where "MAX_PS = 6.5"
definition dut1 :: real where "dut1 = - 0.23"

record 'fp telemetry =
  astrom :: astrometry
  cam_settings :: "'fp camera_params"
  current_blob_params :: blob_params

text \<open>\<^verbatim>\<open>camera_raw\<close> points to the bytes of the current image.\<close>

type_synonym frame = "nat \<Rightarrow> 8 word"

text \<open>
  The globals of \<^verbatim>\<open>commands.c\<close>, shared by all the threads, with the three structures
  of the other files.
\<close>

record 'fp globals =
  st :: "'fp store"
  all_cmds :: commands
  all_data :: "'fp telemetry"
  camera_raw :: frame
  command_lock :: cint

text \<open>
  What a successful \<^verbatim>\<open>send\<close> was given: the telemetry structure (of
  \<^verbatim>\<open>sizeof(struct telemetry)\<close> bytes), or the image buffer and a number of bytes.
\<close>

datatype 'fp sent = Sent_telemetry "'fp telemetry" | Sent_image frame int

text \<open>
  The places of one thread in the loop of \<^verbatim>\<open>processClient\<close>. Between \<open>At_merge\<close> and the
  end of \<open>At_unlock\<close> the thread is in the region that \<^verbatim>\<open>command_lock\<close> guards.
\<close>

datatype pc =
    At_recv | At_wait | At_lock | At_merge | At_unlock | At_snapshot
  | At_send_telemetry | At_send_image | At_close | Finished | Undefined_behaviour

record 'fp thread =
  pc :: pc
  recv_status :: int
  wire :: "'fp sent list"
  socket_open :: bool

text \<open>
  What the network answers to the call a step makes: the value \<^verbatim>\<open>recvfrom\<close> returns
  and the content it leaves in \<^verbatim>\<open>all_cmds\<close>, and the value \<^verbatim>\<open>send\<close> returns.
\<close>

record answer =
  recv_ret :: int
  recv_buf :: commands
  send_ret :: int

definition snapshot :: "'fp store \<Rightarrow> 'fp telemetry" where
  "snapshot s =
     \<lparr>astrom = all_astro_params s, cam_settings = all_camera_params s,
      current_blob_params = all_blob_params s\<rparr>"

text \<open>
  One step of one thread in the loop of \<^verbatim>\<open>processClient\<close>: one statement; the
  assignments of lines 148 to 217 are one step. The test of \<^verbatim>\<open>while (command_lock)\<close>
  and the assignment \<^verbatim>\<open>command_lock = 1\<close> are two statements, so two steps.
\<close>

definition processClient_step ::
  "(cfloat \<Rightarrow> 'fp option) \<Rightarrow> ('fp store \<Rightarrow> 'fp store) \<Rightarrow> answer \<Rightarrow>
     'fp globals \<Rightarrow> 'fp thread \<Rightarrow> 'fp globals \<times> 'fp thread" where
  "processClient_step cvt hw a g t =
     (case pc t of
        At_recv \<Rightarrow>
          (g\<lparr>all_cmds := recv_buf a\<rparr>,
           t\<lparr>recv_status := recv_ret a,
             pc := (if recv_ret a = - 1 then At_snapshot else At_wait)\<rparr>)
      | At_wait \<Rightarrow> (g, if command_lock g \<noteq> 0 then t else t\<lparr>pc := At_lock\<rparr>)
      | At_lock \<Rightarrow> (g\<lparr>command_lock := 1\<rparr>, t\<lparr>pc := At_merge\<rparr>)
      | At_merge \<Rightarrow>
          (case apply_commands cvt hw (all_cmds g) (st g) of
             Inl e \<Rightarrow> (g, t\<lparr>pc := Undefined_behaviour\<rparr>)
           | Inr s' \<Rightarrow> (g\<lparr>st := s'\<rparr>, t\<lparr>pc := At_unlock\<rparr>))
      | At_unlock \<Rightarrow> (g\<lparr>command_lock := 0\<rparr>, t\<lparr>pc := At_snapshot\<rparr>)
      | At_snapshot \<Rightarrow> (g\<lparr>all_data := snapshot (st g)\<rparr>, t\<lparr>pc := At_send_telemetry\<rparr>)
      | At_send_telemetry \<Rightarrow>
          (if send_ret a \<le> 0 then (g, t\<lparr>pc := At_close\<rparr>)
           else (g, t\<lparr>wire := wire t @ [Sent_telemetry (all_data g)], pc := At_send_image\<rparr>))
      | At_send_image \<Rightarrow>
          (if send_ret a \<le> 0 then (g, t\<lparr>pc := At_close\<rparr>)
           else (g, t\<lparr>wire := wire t @ [Sent_image (camera_raw g) (CAMERA_WIDTH * CAMERA_HEIGHT)],
                      pc := At_recv\<rparr>))
      | At_close \<Rightarrow> (g, t\<lparr>socket_open := False, pc := Finished\<rparr>)
      | Finished \<Rightarrow> (g, t)
      | Undefined_behaviour \<Rightarrow> (g, t))"

text \<open>The threads of the clients, by number, over the globals; a schedule names the
  thread of each step and the answer of the network to it.\<close>

record 'fp system =
  globals :: "'fp globals"
  threads :: "nat \<Rightarrow> 'fp thread"

definition sys_step ::
  "(cfloat \<Rightarrow> 'fp option) \<Rightarrow> ('fp store \<Rightarrow> 'fp store) \<Rightarrow> 'fp system \<Rightarrow> nat \<times> answer \<Rightarrow> 'fp system" where
  "sys_step cvt hw sys e =
     (let r = processClient_step cvt hw (snd e) (globals sys) (threads sys (fst e))
      in \<lparr>globals = fst r, threads = (threads sys)(fst e := snd r)\<rparr>)"

definition run ::
  "(cfloat \<Rightarrow> 'fp option) \<Rightarrow> ('fp store \<Rightarrow> 'fp store) \<Rightarrow> (nat \<times> answer) list \<Rightarrow> 'fp system \<Rightarrow> 'fp system" where
  "run cvt hw sched sys = foldl (sys_step cvt hw) sys sched"

definition in_merge_region :: "'fp thread \<Rightarrow> bool" where
  "in_merge_region t = (pc t = At_merge \<or> pc t = At_unlock)"

section \<open>The solver (\<^verbatim>\<open>lostInSpace\<close>)\<close>

text \<open>\<^verbatim>\<open>M_PI\<close> of \<^verbatim>\<open>math.h\<close>, and the two factors the function computes from it.\<close>

definition M_PI :: real where "M_PI = 3.14159265358979323846"

definition rad_per_deg :: cdouble where "rad_per_deg = c_div (Num M_PI) (Num 180.0)"
definition deg_per_rad :: cdouble where "deg_per_rad = c_div (Num 180.0) (Num M_PI)"

text \<open>The macro \<^verbatim>\<open>MIN\<close> of the astrometry.net headers (\<open>MIN\<close> is taken in HOL).\<close>

definition MIN2 :: "int \<Rightarrow> int \<Rightarrow> int" where
  "MIN2 a b = (if a < b then a else b)"

datatype parity = PARITY_NORMAL | PARITY_FLIP | PARITY_BOTH

record starxy =
  field_x :: "cdouble list"
  field_y :: "cdouble list"
  field_flux :: "cdouble list"

text \<open>
  The fields of astrometry.net's \<^verbatim>\<open>solver_t\<close> that the function sets, directly or through
  the setters of the library; \<open>'idx\<close> stands for \<^verbatim>\<open>index_t *\<close>.
\<close>

record 'idx solver_t =
  funits_lower :: cdouble
  funits_upper :: cdouble
  endobj :: cint
  quadsize_min :: cdouble
  parity :: parity
  logratio_tokeep :: cdouble
  logratio_totune :: cdouble
  logratio_toprint :: cdouble
  distance_from_quad_bonus :: bool
  fieldxy :: "starxy option"
  field_minx :: cdouble
  field_maxx :: cdouble
  field_miny :: cdouble
  field_maxy :: cdouble
  indexes :: "'idx list"

text \<open>The setters of the library that the function calls, by their effect on these
  fields.\<close>

definition solver_set_keep_logodds :: "'idx solver_t \<Rightarrow> cdouble \<Rightarrow> 'idx solver_t" where
  "solver_set_keep_logodds sv x = sv\<lparr>logratio_tokeep := x\<rparr>"

definition solver_set_field :: "'idx solver_t \<Rightarrow> starxy \<Rightarrow> 'idx solver_t" where
  "solver_set_field sv f = sv\<lparr>fieldxy := Some f\<rparr>"

definition solver_set_field_bounds ::
  "'idx solver_t \<Rightarrow> cdouble \<Rightarrow> cdouble \<Rightarrow> cdouble \<Rightarrow> cdouble \<Rightarrow> 'idx solver_t" where
  "solver_set_field_bounds sv xlo xhi ylo yhi =
     sv\<lparr>field_minx := xlo, field_maxx := xhi, field_miny := ylo, field_maxy := yhi\<rparr>"

definition solver_add_index :: "'idx solver_t \<Rightarrow> 'idx \<Rightarrow> 'idx solver_t" where
  "solver_add_index sv i = sv\<lparr>indexes := indexes sv @ [i]\<rparr>"

definition solver_cleanup_field :: "'idx solver_t \<Rightarrow> 'idx solver_t" where
  "solver_cleanup_field sv = sv\<lparr>fieldxy := None\<rparr>"

definition solver_clear_indexes :: "'idx solver_t \<Rightarrow> 'idx solver_t" where
  "solver_clear_indexes sv = sv\<lparr>indexes := []\<rparr>"

record atco13_out =
  aob :: cdouble
  zob :: cdouble
  hob :: cdouble
  dob :: cdouble
  rob :: cdouble
  eo :: cdouble

text \<open>
  The numerical routines of libm, astrometry.net and SOFA are parameters. \<open>solver_run\<close>
  gives the outcome of the search on the configured solver: \<open>None\<close> when
  \<^verbatim>\<open>best_match_solves\<close> is false, else the \<^verbatim>\<open>wcstan\<close> of the best match (\<open>'wcs\<close>). A SOFA
  routine gives its status and what its output variables hold after the call;
  \<open>iauAtco13\<close> takes its eighteen arguments as a list, in order.
\<close>

record ('idx, 'wcs) astrolib =
  libm_log :: "cdouble \<Rightarrow> cdouble"
  libm_hypot :: "cdouble \<Rightarrow> cdouble \<Rightarrow> cdouble"
  arcsec2dist :: "cdouble \<Rightarrow> cdouble"
  dist2deg :: "cdouble \<Rightarrow> cdouble"
  starxy_sort_by_flux :: "starxy \<Rightarrow> starxy"
  index_is_within_range :: "'idx \<Rightarrow> cdouble \<Rightarrow> cdouble \<Rightarrow> cdouble \<Rightarrow> bool"
  solver_run :: "'idx solver_t \<Rightarrow> 'wcs option"
  tan_pixelxy2radec :: "'wcs \<Rightarrow> cdouble \<Rightarrow> cdouble \<Rightarrow> cdouble \<times> cdouble"
  tan_pixel_scale :: "'wcs \<Rightarrow> cdouble"
  tan_get_orientation :: "'wcs \<Rightarrow> cdouble"
  iauDtf2d :: "cint \<Rightarrow> cint \<Rightarrow> cint \<Rightarrow> cint \<Rightarrow> cint \<Rightarrow> cdouble \<Rightarrow> cint \<times> cdouble \<times> cdouble"
  iauAtco13 :: "cdouble list \<Rightarrow> cint \<times> atco13_out"
  iauHd2pa :: "cdouble \<Rightarrow> cdouble \<Rightarrow> cdouble \<Rightarrow> cdouble"

record tm =
  tm_year :: cint
  tm_mon :: cint
  tm_mday :: cint
  tm_hour :: cint
  tm_min :: cint
  tm_sec :: cint

record timespec =
  tv_sec :: "64 word"
  tv_nsec :: "64 word"

text \<open>
  The text of a file: literal characters of a format string, and the conversions of the
  numbers (\<^verbatim>\<open>%i\<close>; \<^verbatim>\<open>%f\<close> with its precision), whose digits are not modelled.
\<close>

datatype piece = Lit string | Conv_i cuint | Conv_f nat cdouble

text \<open>
  What one call finds around it: the values the locals \<^verbatim>\<open>ra\<close> and \<^verbatim>\<open>dec\<close> hold when
  the function starts (line 84 declares them without an initialiser), the two readings
  of the clock, and the answers of the C library to the three calls on the log:
  whether \<^verbatim>\<open>fopen\<close> returns a stream; what \<^verbatim>\<open>fprintf\<close> returns and, when it fails, what
  it has left in the buffer of the stream; what \<^verbatim>\<open>fclose\<close> returns and, when it fails,
  what has reached the file.
\<close>

record call_env =
  stack_ra :: cdouble
  stack_dec :: cdouble
  clock_begin :: timespec
  clock_end :: timespec
  fopen_ok :: bool
  fprintf_ret :: int
  fprintf_buffered :: "piece list"
  fclose_ret :: int
  fclose_written :: "piece list"

type_synonym files = "string \<Rightarrow> piece list option"

record 'idx world =
  astro_params :: astrometry
  solver :: "'idx solver_t"
  disk :: files

datatype io_fault = Null_stream

text \<open>Lines 95 to 113.\<close>

definition configure_solver ::
  "('idx, 'wcs) astrolib \<Rightarrow> cuint \<Rightarrow> astrometry \<Rightarrow> 'idx solver_t \<Rightarrow> 'idx solver_t" where
  "configure_solver lib num_blobs a sv =
     (let sv1 = sv\<lparr>funits_lower := Num MIN_PS, funits_upper := Num MAX_PS,
                   endobj := num_blobs,
                   quadsize_min :=
                     c_mul (Num 0.1)
                       (c_of_int (MIN2 (CAMERA_WIDTH - 2 * CAMERA_MARGIN)
                                       (CAMERA_HEIGHT - 2 * CAMERA_MARGIN))),
                   parity := PARITY_BOTH\<rparr>;
          sv2 = solver_set_keep_logodds sv1 (libm_log lib (logodds a))
      in sv2\<lparr>logratio_totune := libm_log lib (Num 1000000),
              logratio_toprint := libm_log lib (Num 1000000),
              distance_from_quad_bonus := True\<rparr>)"

text \<open>Line 116.\<close>

definition hprange :: "('idx, 'wcs) astrolib \<Rightarrow> cdouble" where
  "hprange lib =
     arcsec2dist lib
       (c_div (c_mul (Num MAX_PS)
                 (libm_hypot lib (c_of_int (CAMERA_WIDTH - 2 * CAMERA_MARGIN))
                                 (c_of_int (CAMERA_HEIGHT - 2 * CAMERA_MARGIN))))
              (Num 2.0))"

text \<open>Lines 119 to 132; the three arrays are read at the indices below \<^verbatim>\<open>num_blobs\<close>.\<close>

definition set_field ::
  "('idx, 'wcs) astrolib \<Rightarrow> (nat \<Rightarrow> cdouble) \<Rightarrow> (nat \<Rightarrow> cdouble) \<Rightarrow> (nat \<Rightarrow> cdouble) \<Rightarrow> cuint \<Rightarrow>
     'idx solver_t \<Rightarrow> 'idx solver_t" where
  "set_field lib star_x star_y star_mags num_blobs sv =
     (let n = unat num_blobs;
          field = starxy_sort_by_flux lib
                    \<lparr>field_x = map star_x [0..<n], field_y = map star_y [0..<n],
                     field_flux = map star_mags [0..<n]\<rparr>
      in solver_set_field_bounds (solver_set_field sv field)
           (c_of_int 0) (c_of_int (CAMERA_WIDTH - 2 * CAMERA_MARGIN))
           (c_of_int 0) (c_of_int (CAMERA_HEIGHT - 2 * CAMERA_MARGIN)))"

text \<open>Lines 135 to 145: the body of the loop over the indexes of the engine, and the loop.\<close>

definition add_if_close ::
  "('idx, 'wcs) astrolib \<Rightarrow> cdouble \<Rightarrow> cdouble \<Rightarrow> 'idx solver_t \<Rightarrow> 'idx \<Rightarrow> 'idx solver_t" where
  "add_if_close lib ra0 dec0 sv index =
     (if c_ge ra0 (c_of_int (- 180)) \<and> c_ge dec0 (c_of_int (- 90)) \<and>
         index_is_within_range lib index ra0 dec0 (dist2deg lib (hprange lib))
      then solver_add_index sv index
      else if c_lt ra0 (c_of_int (- 180)) \<or> c_lt dec0 (c_of_int (- 90))
      then solver_add_index sv index
      else sv)"

fun add_indexes ::
  "('idx, 'wcs) astrolib \<Rightarrow> cdouble \<Rightarrow> cdouble \<Rightarrow> 'idx list \<Rightarrow> 'idx solver_t \<Rightarrow> 'idx solver_t" where
  "add_indexes lib ra0 dec0 [] sv = sv"
| "add_indexes lib ra0 dec0 (index # rest) sv =
     add_indexes lib ra0 dec0 rest (add_if_close lib ra0 dec0 sv index)"

text \<open>Which indexes the loop adds, as a filter on the values of the two locals.\<close>

definition selected :: "('idx, 'wcs) astrolib \<Rightarrow> cdouble \<Rightarrow> cdouble \<Rightarrow> 'idx \<Rightarrow> bool" where
  "selected lib r d i =
     (if c_ge r (c_of_int (- 180)) \<and> c_ge d (c_of_int (- 90))
      then index_is_within_range lib i r d (dist2deg lib (hprange lib))
      else c_lt r (c_of_int (- 180)) \<or> c_lt d (c_of_int (- 90)))"

text \<open>The solver as \<^verbatim>\<open>solver_run\<close> receives it (line 148).\<close>

definition prepare_solver ::
  "('idx, 'wcs) astrolib \<Rightarrow> call_env \<Rightarrow> 'idx list \<Rightarrow>
     (nat \<Rightarrow> cdouble) \<Rightarrow> (nat \<Rightarrow> cdouble) \<Rightarrow> (nat \<Rightarrow> cdouble) \<Rightarrow> cuint \<Rightarrow>
     astrometry \<Rightarrow> 'idx solver_t \<Rightarrow> 'idx solver_t" where
  "prepare_solver lib env engine_indexes star_x star_y star_mags num_blobs a sv =
     add_indexes lib (stack_ra env) (stack_dec env) engine_indexes
       (set_field lib star_x star_y star_mags num_blobs (configure_solver lib num_blobs a sv))"

text \<open>Line 158: the sky coordinates of the centre of the frame.\<close>

definition frame_centre :: "('idx, 'wcs) astrolib \<Rightarrow> 'wcs \<Rightarrow> cdouble \<times> cdouble" where
  "frame_centre lib wcs =
     tan_pixelxy2radec lib wcs
       (c_div (c_of_int (CAMERA_WIDTH - 2 * CAMERA_MARGIN - 1)) (Num 2.0))
       (c_div (c_of_int (CAMERA_HEIGHT - 2 * CAMERA_MARGIN - 1)) (Num 2.0))"

text \<open>Lines 167 and 168.\<close>

definition julian_date :: "('idx, 'wcs) astrolib \<Rightarrow> tm \<Rightarrow> cint \<times> cdouble \<times> cdouble" where
  "julian_date lib tm_info =
     iauDtf2d lib (tm_year tm_info + 1900) (tm_mon tm_info + 1) (tm_mday tm_info)
       (tm_hour tm_info) (tm_min tm_info) (c_of_int (sint (tm_sec tm_info)))"

text \<open>Lines 173 to 178: the output variables of \<^verbatim>\<open>iauAtco13\<close> after the call.\<close>

definition observed ::
  "('idx, 'wcs) astrolib \<Rightarrow> tm \<Rightarrow> cdouble \<Rightarrow> astrometry \<Rightarrow> 'wcs \<Rightarrow> atco13_out" where
  "observed lib tm_info exposure a wcs =
     (let centre = frame_centre lib wcs;
          jd = julian_date lib tm_info;
          d1 = fst (snd jd);
          d2 = snd (snd jd)
      in snd (iauAtco13 lib
           [c_mul (fst centre) rad_per_deg, c_mul (snd centre) rad_per_deg,
            Num 0.0, Num 0.0, Num 0.0, Num 0.0,
            d1,
            c_add d2 (c_div exposure (c_mul (c_mul (Num 2000.0) (Num 3600.0)) (Num 24.0))),
            Num dut1,
            c_mul (longitude a) rad_per_deg, c_mul (latitude a) rad_per_deg,
            hm a, Num 0.0, Num 0.0, Num 0.0, Num 0.0, Num 0.0, Num 0.0]))"

text \<open>Lines 161, 162, 183 and 191 to 197: the structure after a solution.\<close>

definition solution ::
  "('idx, 'wcs) astrolib \<Rightarrow> tm \<Rightarrow> cdouble \<Rightarrow> astrometry \<Rightarrow> 'wcs \<Rightarrow> astrometry" where
  "solution lib tm_info exposure a wcs =
     (let ps1 = tan_pixel_scale lib wcs;
          fr1 = tan_get_orientation lib wcs;
          ob = observed lib tm_info exposure a wcs;
          ir1 = c_add (c_mul (iauHd2pa lib (hob ob) (dob ob) (c_mul (latitude a) rad_per_deg))
                         deg_per_rad) fr1
      in a\<lparr>ir := ir1,
           ra := c_mul (rob ob) deg_per_rad,
           dec := c_mul (dob ob) deg_per_rad,
           alt := c_sub (Num 90.0) (c_mul (zob ob) deg_per_rad),
           az := c_mul (aob ob) deg_per_rad,
           fr := fr1,
           ps := ps1\<rparr>)"

text \<open>Lines 206 to 208.\<close>

definition nanoseconds :: "timespec \<Rightarrow> cdouble" where
  "nanoseconds ts =
     c_add (c_mul (c_of_int (sint (tv_sec ts))) (Num 1000000000)) (c_of_int (sint (tv_nsec ts)))"

definition astrom_time :: "call_env \<Rightarrow> cdouble" where
  "astrom_time env = c_sub (nanoseconds (clock_end env)) (nanoseconds (clock_begin env))"

text \<open>
  Lines 213 to 219. The format is
  \<^verbatim>\<open>"%i|%lf|%lf|%lf|%lf|%.15f|%.15f|%lf|%f"\<close>. The mode \<^verbatim>\<open>"a"\<close> creates a missing file
  and writes at the end of an existing one. \<^verbatim>\<open>fprintf\<close> on a null stream is undefined.
  \<^verbatim>\<open>fprintf\<close> puts the text into the buffer of the stream; when it fails, the function
  prints a message and goes on. \<^verbatim>\<open>fclose\<close> writes the buffer to the file; the function
  does not look at what \<^verbatim>\<open>fclose\<close> returns (0 when the buffer has been written).
\<close>

definition solution_text :: "cuint \<Rightarrow> astrometry \<Rightarrow> cdouble \<Rightarrow> piece list" where
  "solution_text num_blobs a ms =
     [Conv_i num_blobs, Lit ''|'', Conv_f 6 (ra a), Lit ''|'', Conv_f 6 (dec a), Lit ''|'',
      Conv_f 6 (fr a), Lit ''|'', Conv_f 6 (ps a), Lit ''|'', Conv_f 15 (alt a), Lit ''|'',
      Conv_f 15 (az a), Lit ''|'', Conv_f 6 (ir a), Lit ''|'', Conv_f 6 ms]"

definition content :: "files \<Rightarrow> string \<Rightarrow> piece list" where
  "content fs name = (case fs name of None \<Rightarrow> [] | Some t \<Rightarrow> t)"

definition fprintf_buffer :: "call_env \<Rightarrow> piece list \<Rightarrow> piece list" where
  "fprintf_buffer env text = (if fprintf_ret env < 0 then fprintf_buffered env else text)"

definition fclose_file :: "call_env \<Rightarrow> piece list \<Rightarrow> piece list" where
  "fclose_file env buffer = (if fclose_ret env = 0 then buffer else fclose_written env)"

definition write_solution ::
  "call_env \<Rightarrow> string \<Rightarrow> cuint \<Rightarrow> astrometry \<Rightarrow> files \<Rightarrow> io_fault + files" where
  "write_solution env datafile num_blobs a fs =
     (if \<not> fopen_ok env then Inl Null_stream
      else
        Inr (fs(datafile := Some (content fs datafile @
          fclose_file env (fprintf_buffer env
            (solution_text num_blobs a (c_mul (astrom_time env) (Num 0.000001))))))))"

text \<open>
  The function. \<open>exposure\<close> is \<^verbatim>\<open>all_camera_params.exposure_time\<close>; the result is the
  status returned and the state left behind.
\<close>

definition lostInSpace ::
  "('idx, 'wcs) astrolib \<Rightarrow> call_env \<Rightarrow> 'idx list \<Rightarrow>
     (nat \<Rightarrow> cdouble) \<Rightarrow> (nat \<Rightarrow> cdouble) \<Rightarrow> (nat \<Rightarrow> cdouble) \<Rightarrow> cuint \<Rightarrow> tm \<Rightarrow> string \<Rightarrow>
     cdouble \<Rightarrow> 'idx world \<Rightarrow> io_fault + (cint \<times> 'idx world)" where
  "lostInSpace lib env engine_indexes star_x star_y star_mags num_blobs tm_info datafile
       exposure w =
     (let sv = prepare_solver lib env engine_indexes star_x star_y star_mags num_blobs
                 (astro_params w) (solver w);
          cleaned = solver_clear_indexes (solver_cleanup_field sv)
      in case solver_run lib sv of
           None \<Rightarrow> Inr (0, w\<lparr>solver := cleaned\<rparr>)
         | Some wcs \<Rightarrow>
             (let a = solution lib tm_info exposure (astro_params w) wcs
              in case write_solution env datafile num_blobs a (disk w) of
                   Inl e \<Rightarrow> Inl e
                 | Inr fs \<Rightarrow> Inr (1, \<lparr>astro_params = a, solver = cleaned, disk = fs\<rparr>)))"

text \<open>The number of line ends in a text; a conversion of a number prints none.\<close>

fun line_ends :: "piece \<Rightarrow> nat" where
  "line_ends (Lit s) = count_list s (CHR 0x0A)"
| "line_ends p = 0"

definition newlines :: "piece list \<Rightarrow> nat" where
  "newlines t = sum_list (map line_ends t)"

text \<open>
  Whether a text stops in the middle of a line, and the number of its lines when a last
  line without a line end counts as one. A conversion prints at least one character.
\<close>

fun open_after :: "bool \<Rightarrow> piece \<Rightarrow> bool" where
  "open_after b (Lit s) = (if s = [] then b else last s \<noteq> CHR 0x0A)"
| "open_after b p = True"

definition ends_open :: "piece list \<Rightarrow> bool" where
  "ends_open t = foldl open_after False t"

definition line_count :: "piece list \<Rightarrow> nat" where
  "line_count t = newlines t + (if ends_open t then 1 else 0)"

section \<open>The rules of the command fields\<close>

text \<open>
  A command value for a guarded blob parameter asks for no change when it is negative or
  not a number; the focus position when it equals \<open>-1\<close>.
\<close>

definition blob_sentinel :: "cfloat \<Rightarrow> bool" where
  "blob_sentinel v = (v = NaN \<or> c_lt v (c_of_int 0))"

definition focus_sentinel :: "cfloat \<Rightarrow> bool" where
  "focus_sentinel v = c_eq v (c_of_int (- 1))"

text \<open>A field with a sentinel keeps its old value, or holds the converted command.\<close>

definition kept_or_stored :: "bool \<Rightarrow> 'a option \<Rightarrow> 'a \<Rightarrow> 'a \<Rightarrow> bool" where
  "kept_or_stored sentinel conv old new = (if sentinel then new = old else conv = Some new)"

definition astro_camera_rule ::
  "(cfloat \<Rightarrow> 'fp option) \<Rightarrow> commands \<Rightarrow> 'fp store \<Rightarrow> 'fp store \<Rightarrow> bool" where
  "astro_camera_rule cvt c s s0 =
     (let a = all_astro_params s0; p = all_camera_params s0 in
      logodds a = cmd_logodds c \<and> latitude a = cmd_latitude c \<and>
      longitude a = cmd_longitude c \<and> hm a = cmd_height c \<and>
      focus_mode p = cmd_focus_mode c \<and> start_focus_pos p = cmd_start_focus_pos c \<and>
      end_focus_pos p = cmd_end_focus_pos c \<and> focus_step p = cmd_focus_step c \<and>
      focus_inf p = cmd_set_focus_inf c \<and>
      max_aperture p = cmd_set_max_aperture c \<and> aperture_steps p = cmd_aperture_steps c \<and>
      kept_or_stored (focus_sentinel (cmd_focus_pos c)) (cvt (cmd_focus_pos c))
        (focus_position (all_camera_params s)) (focus_position p))"

definition blob_rule :: "commands \<Rightarrow> blob_params \<Rightarrow> blob_params \<Rightarrow> bool" where
  "blob_rule c b b' =
     (let bp = cmd_blob_params c in
      kept_or_stored (blob_sentinel (bp 0)) (f2i (bp 0)) (spike_limit b) (spike_limit b') \<and>
      f2i (bp 1) = Some (dynamic_hot_pixels b') \<and>
      kept_or_stored (blob_sentinel (bp 2)) (f2i (bp 2)) (r_smooth b) (r_smooth b') \<and>
      f2i (bp 3) = Some (high_pass_filter b') \<and>
      kept_or_stored (blob_sentinel (bp 4)) (f2i (bp 4))
        (r_high_pass_filter b) (r_high_pass_filter b') \<and>
      kept_or_stored (blob_sentinel (bp 5)) (f2i (bp 5))
        (centroid_search_border b) (centroid_search_border b') \<and>
      f2i (bp 6) = Some (filter_return_image b') \<and>
      kept_or_stored (blob_sentinel (bp 7)) (Some (bp 7)) (n_sigma b) (n_sigma b') \<and>
      kept_or_stored (blob_sentinel (bp 8)) (f2i (bp 8))
        (unique_star_spacing b) (unique_star_spacing b') \<and>
      make_static_hp_mask b' = cmd_make_hp c \<and>
      use_static_hp_mask b' = cmd_use_hp c)"

text \<open>Every conversion that the command makes the program perform is defined.\<close>

definition blob_conversions_defined :: "commands \<Rightarrow> bool" where
  "blob_conversions_defined c =
     (let bp = cmd_blob_params c in
      (blob_sentinel (bp 0) \<or> f2i (bp 0) \<noteq> None) \<and> f2i (bp 1) \<noteq> None \<and>
      (blob_sentinel (bp 2) \<or> f2i (bp 2) \<noteq> None) \<and> f2i (bp 3) \<noteq> None \<and>
      (blob_sentinel (bp 4) \<or> f2i (bp 4) \<noteq> None) \<and>
      (blob_sentinel (bp 5) \<or> f2i (bp 5) \<noteq> None) \<and> f2i (bp 6) \<noteq> None \<and>
      (blob_sentinel (bp 8) \<or> f2i (bp 8) \<noteq> None))"

definition conversions_defined :: "(cfloat \<Rightarrow> 'fp option) \<Rightarrow> commands \<Rightarrow> bool" where
  "conversions_defined cvt c =
     ((focus_sentinel (cmd_focus_pos c) \<or> cvt (cmd_focus_pos c) \<noteq> None) \<and>
      blob_conversions_defined c)"

section \<open>Concrete states and commands\<close>

definition astro_ex :: astrometry where
  "astro_ex =
     \<lparr>rawtime = Num 0, logodds = Num 100000000, latitude = Num 40.79166879,
      longitude = Num (- 73.68133399), hm = Num 59.24, ra = Num 10, dec = Num 20,
      fr = Num 0, ps = Num 6.25, ir = Num 0, alt = Num 45, az = Num 90\<rparr>"

definition camera_ex :: "cint camera_params" where
  "camera_ex =
     \<lparr>exposure_time = Num 800, change_exposure_bool = 0, focus_mode = 1,
      start_focus_pos = 0, end_focus_pos = 0, focus_step = 0, focus_inf = 0,
      focus_position = 100, max_aperture = 0, aperture_steps = 0\<rparr>"

definition blob_ex :: blob_params where
  "blob_ex =
     \<lparr>spike_limit = 3, dynamic_hot_pixels = 1, r_smooth = 2, high_pass_filter = 0,
      r_high_pass_filter = 10, centroid_search_border = 1, filter_return_image = 0,
      n_sigma = Num 2, unique_star_spacing = 15, make_static_hp_mask = 0,
      use_static_hp_mask = 1\<rparr>"

definition store_ex :: "cint store" where
  "store_ex =
     \<lparr>all_astro_params = astro_ex, all_camera_params = camera_ex, all_blob_params = blob_ex\<rparr>"

text \<open>
  A command that keeps the focus position, \<open>r_smooth\<close> and \<open>unique_star_spacing\<close>, carries
  a NaN for \<open>n_sigma\<close> and the value 2.5 for \<open>spike_limit\<close>.
\<close>

definition cmd_ex :: commands where
  "cmd_ex =
     \<lparr>cmd_logodds = Num 10000000, cmd_latitude = Num 40, cmd_longitude = Num (- 73),
      cmd_height = Num 50, cmd_exposure = Num 700.5, cmd_focus_pos = Num (- 1),
      cmd_focus_mode = 0, cmd_start_focus_pos = 1, cmd_end_focus_pos = 2,
      cmd_focus_step = 3, cmd_set_focus_inf = 0, cmd_aperture_steps = 4,
      cmd_set_max_aperture = 1, cmd_make_hp = 20, cmd_use_hp = 1,
      cmd_blob_params =
        (\<lambda>i. if i = 0 then Num 2.5 else if i = 2 then Num (- 1) else if i = 7 then NaN
             else if i = 8 then Num (- 3) else Num 1)\<rparr>"

definition store_ex_merged :: "cint store" where
  "store_ex_merged =
     \<lparr>all_astro_params =
        astro_ex\<lparr>logodds := Num 10000000, latitude := Num 40, longitude := Num (- 73),
                 hm := Num 50\<rparr>,
      all_camera_params =
        \<lparr>exposure_time = Num 700.5, change_exposure_bool = 1, focus_mode = 0,
         start_focus_pos = 1, end_focus_pos = 2, focus_step = 3, focus_inf = 0,
         focus_position = 100, max_aperture = 1, aperture_steps = 4\<rparr>,
      all_blob_params =
        \<lparr>spike_limit = 2, dynamic_hot_pixels = 1, r_smooth = 2, high_pass_filter = 1,
         r_high_pass_filter = 1, centroid_search_border = 1, filter_return_image = 1,
         n_sigma = Num 2, unique_star_spacing = 15, make_static_hp_mask = 20,
         use_static_hp_mask = 1\<rparr>\<rparr>"

text \<open>Two sessions that have each to receive a command, over unlocked globals.\<close>

definition thread_ex :: "cint thread" where
  "thread_ex = \<lparr>pc = At_recv, recv_status = 0, wire = [], socket_open = True\<rparr>"

definition system_ex :: "cint system" where
  "system_ex =
     \<lparr>globals =
        \<lparr>st = store_ex, all_cmds = cmd_ex, all_data = snapshot store_ex,
         camera_raw = (\<lambda>i. 0), command_lock = 0\<rparr>,
      threads = (\<lambda>i. thread_ex)\<rparr>"

text \<open>The network hands over a whole command (116 bytes); it reports a failure; a
  \<^verbatim>\<open>send\<close> goes through.\<close>

definition received :: answer where
  "received = \<lparr>recv_ret = 116, recv_buf = cmd_ex, send_ret = 0\<rparr>"

definition timed_out :: answer where
  "timed_out = \<lparr>recv_ret = - 1, recv_buf = cmd_ex, send_ret = 0\<rparr>"

definition sent_all :: answer where
  "sent_all = \<lparr>recv_ret = 0, recv_buf = cmd_ex, send_ret = 1\<rparr>"

definition send_failed :: answer where
  "send_failed = \<lparr>recv_ret = 0, recv_buf = cmd_ex, send_ret = - 1\<rparr>"

text \<open>
  Both sessions receive, both find \<^verbatim>\<open>command_lock\<close> clear, then both set it.
\<close>

definition race_schedule :: "(nat \<times> answer) list" where
  "race_schedule =
     [(0, received), (1, received), (0, received), (1, received), (0, received), (1, received)]"

text \<open>Stand-ins for the libraries, for concrete runs: the search succeeds when the
  solver holds an index, and index 1 alone is within range of any position.\<close>

definition lib_ex :: "(nat, cdouble \<times> cdouble) astrolib" where
  "lib_ex =
     \<lparr>libm_log = (\<lambda>x. x), libm_hypot = (\<lambda>x y. c_add x y),
      arcsec2dist = (\<lambda>x. x), dist2deg = (\<lambda>x. x),
      starxy_sort_by_flux = (\<lambda>f. f),
      index_is_within_range = (\<lambda>i r d g. i = 1),
      solver_run = (\<lambda>sv. if indexes sv = [] then None else Some (Num 10, Num 20)),
      tan_pixelxy2radec = (\<lambda>wcs x y. wcs),
      tan_pixel_scale = (\<lambda>wcs. Num 6.25),
      tan_get_orientation = (\<lambda>wcs. Num 30),
      iauDtf2d = (\<lambda>y m d h mi s. (0, Num 2400000.5, Num 60000)),
      iauAtco13 =
        (\<lambda>args. (0, \<lparr>aob = Num 1, zob = Num 0.5, hob = Num 0.25, dob = Num 0.125,
                      rob = Num 2, eo = Num 0\<rparr>)),
      iauHd2pa = (\<lambda>h d p. Num 0.75)\<rparr>"

definition env_ex :: "cdouble \<Rightarrow> call_env" where
  "env_ex r =
     \<lparr>stack_ra = r, stack_dec = Num 0,
      clock_begin = \<lparr>tv_sec = 100, tv_nsec = 0\<rparr>,
      clock_end = \<lparr>tv_sec = 101, tv_nsec = 500000000\<rparr>,
      fopen_ok = True, fprintf_ret = 80, fprintf_buffered = [], fclose_ret = 0,
      fclose_written = []\<rparr>"

definition solver_ex :: "nat solver_t" where
  "solver_ex =
     \<lparr>funits_lower = Num 0, funits_upper = Num 0, endobj = 0, quadsize_min = Num 0,
      parity = PARITY_NORMAL, logratio_tokeep = Num 0, logratio_totune = Num 0,
      logratio_toprint = Num 0, distance_from_quad_bonus = False, fieldxy = None,
      field_minx = Num 0, field_maxx = Num 0, field_miny = Num 0, field_maxy = Num 0,
      indexes = []\<rparr>"

definition tm_ex :: tm where
  "tm_ex = \<lparr>tm_year = 120, tm_mon = 5, tm_mday = 14, tm_hour = 3, tm_min = 25, tm_sec = 40\<rparr>"

text \<open>A state with a solution from before (10 and 20 degrees) and a log of one line.\<close>

definition world_ex :: "nat world" where
  "world_ex =
     \<lparr>astro_params = astro_ex, solver = solver_ex,
      disk = (\<lambda>name. if name = ''data.txt'' then Some [Lit ''log'', Lit [CHR 0x0A]] else None)\<rparr>"

definition solve_ex :: "cdouble \<Rightarrow> io_fault + (cint \<times> nat world)" where
  "solve_ex r =
     lostInSpace lib_ex (env_ex r) [1, 2, 3] (\<lambda>i. Num 0) (\<lambda>i. Num 0) (\<lambda>i. Num 0) 0
       tm_ex ''data.txt'' (Num 800) world_ex"

text \<open>The state after that call with \<open>-200\<close> in the local, and the same call once more.\<close>

definition world_solved :: "nat world" where
  "world_solved = snd (projr (solve_ex (Num (- 200))))"

definition solve_again :: "io_fault + (cint \<times> nat world)" where
  "solve_again =
     lostInSpace lib_ex (env_ex (Num (- 200))) [1, 2, 3] (\<lambda>i. Num 0) (\<lambda>i. Num 0) (\<lambda>i. Num 0) 0
       tm_ex ''data.txt'' (Num 800) world_solved"

section \<open>Proofs: the command fields\<close>

lemma fault_only: "(e::fault) = Undefined_conversion"
  by (cases e) simp

lemma bind_fault_Inr: "bind_fault r f = Inr y \<longleftrightarrow> (\<exists>x. r = Inr x \<and> f x = Inr y)"
  by (cases r) (simp_all add: bind_fault_def)

lemma bind_fault_total:
  assumes "\<exists>x. r = Inr x" and "\<And>x. \<exists>y. f x = Inr y"
  shows "\<exists>y. bind_fault r f = Inr y"
  using assms by (auto simp add: bind_fault_def)

lemma c_ge_zero_iff: "c_ge v (c_of_int 0) \<longleftrightarrow> \<not> blob_sentinel v"
  by (cases v) (auto simp add: c_ge_def c_of_int_def blob_sentinel_def)

lemma c_ne_minus_one_iff: "c_ne v (c_of_int (- 1)) \<longleftrightarrow> \<not> focus_sentinel v"
  by (simp add: c_ne_def focus_sentinel_def)

lemma focus_sentinel_iff: "focus_sentinel v \<longleftrightarrow> v = Num (- 1)"
  by (cases v) (auto simp add: focus_sentinel_def c_of_int_def)

lemma blob_sentinel_iff:
  "blob_sentinel v \<longleftrightarrow> v = NaN \<or> v = MInf \<or> (\<exists>x. v = Num x \<and> x < 0)"
  by (cases v) (auto simp add: blob_sentinel_def c_of_int_def)

lemma merge_exposure_fields:
  "exposure_time (merge_exposure c p) =
     (if exposure_differs c p then cmd_exposure c else exposure_time p)"
  "change_exposure_bool (merge_exposure c p) =
     (if exposure_differs c p then 1 else change_exposure_bool p)"
  "focus_position (merge_exposure c p) = focus_position p"
  by (simp_all add: merge_exposure_def)

lemma merge_focus_Inr:
  "merge_focus cvt c p = Inr p' \<longleftrightarrow>
     (\<exists>v. (if focus_sentinel (cmd_focus_pos c) then v = focus_position p
           else cvt (cmd_focus_pos c) = Some v) \<and>
          p' = p\<lparr>focus_mode := cmd_focus_mode c,
                 start_focus_pos := cmd_start_focus_pos c,
                 end_focus_pos := cmd_end_focus_pos c,
                 focus_step := cmd_focus_step c,
                 focus_inf := cmd_set_focus_inf c,
                 focus_position := v,
                 max_aperture := cmd_set_max_aperture c,
                 aperture_steps := cmd_aperture_steps c\<rparr>)"
  by (auto simp add: merge_focus_def Let_def bind_fault_def c_ne_minus_one_iff
      split: option.splits)

lemma merge_before_hw_Inr:
  "merge_before_hw cvt c s = Inr s0 \<longleftrightarrow>
     (\<exists>p. merge_focus cvt c (merge_exposure c (all_camera_params s)) = Inr p \<and>
          s0 = s\<lparr>all_astro_params := merge_astro c (all_astro_params s),
                 all_camera_params := p\<rparr>)"
  by (auto simp add: merge_before_hw_def merge_camera_def Let_def bind_fault_Inr)

lemma merge_before_hw_rule:
  assumes "merge_before_hw cvt c s = Inr s0"
  shows "astro_camera_rule cvt c s s0"
  using assms
  by (auto simp add: merge_before_hw_Inr merge_focus_Inr astro_camera_rule_def Let_def
      kept_or_stored_def merge_astro_def merge_exposure_fields split: if_splits)


lemma merge_before_hw_total:
  assumes "focus_sentinel (cmd_focus_pos c) \<or> cvt (cmd_focus_pos c) \<noteq> None"
  shows "\<exists>s0. merge_before_hw cvt c s = Inr s0"
  using assms by (auto simp add: merge_before_hw_Inr merge_focus_Inr)

lemma merge_before_hw_defined:
  assumes "merge_before_hw cvt c s = Inr s0"
  shows "focus_sentinel (cmd_focus_pos c) \<or> cvt (cmd_focus_pos c) \<noteq> None"
  using assms by (auto simp add: merge_before_hw_Inr merge_focus_Inr split: if_splits)

lemma store_int_Inr:
  "store_int v upd b = Inr b' \<longleftrightarrow> (\<exists>i. f2i v = Some i \<and> b' = upd i b)"
  by (auto simp add: store_int_def split: option.splits)

lemma guarded_int_Inr:
  "guarded_int v upd b = Inr b' \<longleftrightarrow>
     (if blob_sentinel v then b' = b else \<exists>i. f2i v = Some i \<and> b' = upd i b)"
  by (auto simp add: guarded_int_def store_int_Inr c_ge_zero_iff)

lemma store_int_sel:
  assumes "store_int v upd b = Inr b'"
  shows "b' = upd (the (f2i v)) b" and "f2i v = Some (the (f2i v))"
  using assms by (auto simp add: store_int_Inr)

lemma guarded_int_sel:
  assumes "guarded_int v upd b = Inr b'"
  shows "b' = (if blob_sentinel v then b else upd (the (f2i v)) b)"
    and "blob_sentinel v \<or> f2i v = Some (the (f2i v))"
  using assms by (auto simp add: guarded_int_Inr split: if_splits)

lemma store_int_total: "f2i v \<noteq> None \<Longrightarrow> \<exists>b'. store_int v upd b = Inr b'"
  by (auto simp add: store_int_def)

lemma guarded_int_total:
  "blob_sentinel v \<or> f2i v \<noteq> None \<Longrightarrow> \<exists>b'. guarded_int v upd b = Inr b'"
  by (auto simp add: guarded_int_def store_int_def c_ge_zero_iff)

text \<open>The eight assignments that can fail, one after the other.\<close>

lemma merge_blob_chain:
  assumes "merge_blob c b = Inr b'"
  obtains b1 b2 b3 b4 b5 b6 b7 where
    "guarded_int (cmd_blob_params c 0) (\<lambda>i x. x\<lparr>spike_limit := i\<rparr>)
       (b\<lparr>make_static_hp_mask := cmd_make_hp c, use_static_hp_mask := cmd_use_hp c\<rparr>) = Inr b1"
    "store_int (cmd_blob_params c 1) (\<lambda>i x. x\<lparr>dynamic_hot_pixels := i\<rparr>) b1 = Inr b2"
    "guarded_int (cmd_blob_params c 2) (\<lambda>i x. x\<lparr>r_smooth := i\<rparr>) b2 = Inr b3"
    "store_int (cmd_blob_params c 3) (\<lambda>i x. x\<lparr>high_pass_filter := i\<rparr>) b3 = Inr b4"
    "guarded_int (cmd_blob_params c 4) (\<lambda>i x. x\<lparr>r_high_pass_filter := i\<rparr>) b4 = Inr b5"
    "guarded_int (cmd_blob_params c 5) (\<lambda>i x. x\<lparr>centroid_search_border := i\<rparr>) b5 = Inr b6"
    "store_int (cmd_blob_params c 6) (\<lambda>i x. x\<lparr>filter_return_image := i\<rparr>) b6 = Inr b7"
    "guarded_int (cmd_blob_params c 8) (\<lambda>i x. x\<lparr>unique_star_spacing := i\<rparr>)
       (if c_ge (cmd_blob_params c 7) (c_of_int 0) then b7\<lparr>n_sigma := cmd_blob_params c 7\<rparr> else b7)
       = Inr b'"
  using assms unfolding merge_blob_def Let_def bind_fault_Inr by blast

lemma merge_blob_rule:
  assumes "merge_blob c b = Inr b'"
  shows "blob_rule c b b'"
proof -
  from assms obtain b1 b2 b3 b4 b5 b6 b7 where steps:
    "guarded_int (cmd_blob_params c 0) (\<lambda>i x. x\<lparr>spike_limit := i\<rparr>)
       (b\<lparr>make_static_hp_mask := cmd_make_hp c, use_static_hp_mask := cmd_use_hp c\<rparr>) = Inr b1"
    "store_int (cmd_blob_params c 1) (\<lambda>i x. x\<lparr>dynamic_hot_pixels := i\<rparr>) b1 = Inr b2"
    "guarded_int (cmd_blob_params c 2) (\<lambda>i x. x\<lparr>r_smooth := i\<rparr>) b2 = Inr b3"
    "store_int (cmd_blob_params c 3) (\<lambda>i x. x\<lparr>high_pass_filter := i\<rparr>) b3 = Inr b4"
    "guarded_int (cmd_blob_params c 4) (\<lambda>i x. x\<lparr>r_high_pass_filter := i\<rparr>) b4 = Inr b5"
    "guarded_int (cmd_blob_params c 5) (\<lambda>i x. x\<lparr>centroid_search_border := i\<rparr>) b5 = Inr b6"
    "store_int (cmd_blob_params c 6) (\<lambda>i x. x\<lparr>filter_return_image := i\<rparr>) b6 = Inr b7"
    "guarded_int (cmd_blob_params c 8) (\<lambda>i x. x\<lparr>unique_star_spacing := i\<rparr>)
       (if c_ge (cmd_blob_params c 7) (c_of_int 0) then b7\<lparr>n_sigma := cmd_blob_params c 7\<rparr> else b7)
       = Inr b'"
    by (rule merge_blob_chain)
  note e = guarded_int_sel(1)[OF steps(1)] store_int_sel(1)[OF steps(2)]
    guarded_int_sel(1)[OF steps(3)] store_int_sel(1)[OF steps(4)]
    guarded_int_sel(1)[OF steps(5)] guarded_int_sel(1)[OF steps(6)]
    store_int_sel(1)[OF steps(7)] guarded_int_sel(1)[OF steps(8)]
  note d = guarded_int_sel(2)[OF steps(1)] store_int_sel(2)[OF steps(2)]
    guarded_int_sel(2)[OF steps(3)] store_int_sel(2)[OF steps(4)]
    guarded_int_sel(2)[OF steps(5)] guarded_int_sel(2)[OF steps(6)]
    store_int_sel(2)[OF steps(7)] guarded_int_sel(2)[OF steps(8)]
  have f0: "spike_limit b' =
      (if blob_sentinel (cmd_blob_params c 0) then spike_limit b
       else the (f2i (cmd_blob_params c 0)))"
    by (simp add: e if_distrib[of spike_limit] c_ge_zero_iff
        split del: if_split cong del: if_weak_cong)
  have f1: "dynamic_hot_pixels b' = the (f2i (cmd_blob_params c 1))"
    by (simp add: e if_distrib[of dynamic_hot_pixels] c_ge_zero_iff
        split del: if_split cong del: if_weak_cong)
  have f2: "r_smooth b' =
      (if blob_sentinel (cmd_blob_params c 2) then r_smooth b
       else the (f2i (cmd_blob_params c 2)))"
    by (simp add: e if_distrib[of r_smooth] c_ge_zero_iff
        split del: if_split cong del: if_weak_cong)
  have f3: "high_pass_filter b' = the (f2i (cmd_blob_params c 3))"
    by (simp add: e if_distrib[of high_pass_filter] c_ge_zero_iff
        split del: if_split cong del: if_weak_cong)
  have f4: "r_high_pass_filter b' =
      (if blob_sentinel (cmd_blob_params c 4) then r_high_pass_filter b
       else the (f2i (cmd_blob_params c 4)))"
    by (simp add: e if_distrib[of r_high_pass_filter] c_ge_zero_iff
        split del: if_split cong del: if_weak_cong)
  have f5: "centroid_search_border b' =
      (if blob_sentinel (cmd_blob_params c 5) then centroid_search_border b
       else the (f2i (cmd_blob_params c 5)))"
    by (simp add: e if_distrib[of centroid_search_border] c_ge_zero_iff
        split del: if_split cong del: if_weak_cong)
  have f6: "filter_return_image b' = the (f2i (cmd_blob_params c 6))"
    by (simp add: e if_distrib[of filter_return_image] c_ge_zero_iff
        split del: if_split cong del: if_weak_cong)
  have f7: "n_sigma b' =
      (if \<not> blob_sentinel (cmd_blob_params c 7) then cmd_blob_params c 7 else n_sigma b)"
    by (simp add: e if_distrib[of n_sigma] c_ge_zero_iff
        split del: if_split cong del: if_weak_cong)
  have f8: "unique_star_spacing b' =
      (if blob_sentinel (cmd_blob_params c 8) then unique_star_spacing b
       else the (f2i (cmd_blob_params c 8)))"
    by (simp add: e if_distrib[of unique_star_spacing] c_ge_zero_iff
        split del: if_split cong del: if_weak_cong)
  have f9: "make_static_hp_mask b' = cmd_make_hp c"
    by (simp add: e if_distrib[of make_static_hp_mask] c_ge_zero_iff
        split del: if_split cong del: if_weak_cong)
  have f10: "use_static_hp_mask b' = cmd_use_hp c"
    by (simp add: e if_distrib[of use_static_hp_mask] c_ge_zero_iff
        split del: if_split cong del: if_weak_cong)
  have k0: "kept_or_stored (blob_sentinel (cmd_blob_params c 0)) (f2i (cmd_blob_params c 0))
      (spike_limit b) (spike_limit b')"
    using d(1) by (auto simp add: kept_or_stored_def f0)
  have k1: "f2i (cmd_blob_params c 1) = Some (dynamic_hot_pixels b')"
    using d(2) by (simp add: f1)
  have k2: "kept_or_stored (blob_sentinel (cmd_blob_params c 2)) (f2i (cmd_blob_params c 2))
      (r_smooth b) (r_smooth b')"
    using d(3) by (auto simp add: kept_or_stored_def f2)
  have k3: "f2i (cmd_blob_params c 3) = Some (high_pass_filter b')"
    using d(4) by (simp add: f3)
  have k4: "kept_or_stored (blob_sentinel (cmd_blob_params c 4)) (f2i (cmd_blob_params c 4))
      (r_high_pass_filter b) (r_high_pass_filter b')"
    using d(5) by (auto simp add: kept_or_stored_def f4)
  have k5: "kept_or_stored (blob_sentinel (cmd_blob_params c 5)) (f2i (cmd_blob_params c 5))
      (centroid_search_border b) (centroid_search_border b')"
    using d(6) by (auto simp add: kept_or_stored_def f5)
  have k6: "f2i (cmd_blob_params c 6) = Some (filter_return_image b')"
    using d(7) by (simp add: f6)
  have k7: "kept_or_stored (blob_sentinel (cmd_blob_params c 7)) (Some (cmd_blob_params c 7))
      (n_sigma b) (n_sigma b')"
    by (simp add: kept_or_stored_def f7)
  have k8: "kept_or_stored (blob_sentinel (cmd_blob_params c 8)) (f2i (cmd_blob_params c 8))
      (unique_star_spacing b) (unique_star_spacing b')"
    using d(8) by (auto simp add: kept_or_stored_def f8)
  show ?thesis
    unfolding blob_rule_def Let_def
    using k0 k1 k2 k3 k4 k5 k6 k7 k8 f9 f10 by simp
qed

lemma blob_rule_defined: "blob_rule c b b' \<Longrightarrow> blob_conversions_defined c"
  unfolding blob_rule_def blob_conversions_defined_def kept_or_stored_def Let_def
  by (simp split: if_splits)

lemma merge_blob_total:
  assumes "blob_conversions_defined c"
  shows "\<exists>b'. merge_blob c b = Inr b'"
  using assms unfolding merge_blob_def blob_conversions_defined_def Let_def
  by (intro bind_fault_total guarded_int_total store_int_total) simp_all

lemma merge_after_hw_Inr:
  "merge_after_hw c s = Inr s' \<longleftrightarrow>
     (\<exists>b. merge_blob c (all_blob_params s) = Inr b \<and> s' = s\<lparr>all_blob_params := b\<rparr>)"
  by (auto simp add: merge_after_hw_def bind_fault_Inr)

lemma apply_commands_Inr:
  "apply_commands cvt hw c s = Inr s' \<longleftrightarrow>
     (\<exists>s0. merge_before_hw cvt c s = Inr s0 \<and> merge_after_hw c (hw s0) = Inr s')"
  by (simp add: apply_commands_def bind_fault_Inr)

lemma apply_commands_defined:
  assumes "apply_commands cvt hw c s = Inr s'"
  shows "conversions_defined cvt c"
proof -
  from assms obtain s0 b where
    s0: "merge_before_hw cvt c s = Inr s0" and
    b: "merge_blob c (all_blob_params (hw s0)) = Inr b"
    by (auto simp add: apply_commands_Inr merge_after_hw_Inr)
  from b have "blob_conversions_defined c"
    by (blast intro: blob_rule_defined merge_blob_rule)
  with merge_before_hw_defined[OF s0] show ?thesis
    by (simp add: conversions_defined_def)
qed

text \<open>
  C1, as amended. When every conversion that the command asks for is defined, the branch
  of a received command returns, and: the state handed to \<open>adjustCameraHardware\<close> holds
  the commanded odds, latitude, longitude and height, the commanded focus mode, bounds,
  step and infinity flag and the commanded aperture fields, and its focus position is
  the old one when the command carries \<open>-1\<close>, else the converted command; in the final
  state, relative to the state that \<open>adjustCameraHardware\<close> returns, each of
  \<open>spike_limit\<close>, \<open>r_smooth\<close>, \<open>r_high_pass_filter\<close>, \<open>centroid_search_border\<close>, \<open>n_sigma\<close> and
  \<open>unique_star_spacing\<close> is the old value when the command value is negative or a NaN,
  else the command value (truncated to an integer for the integer fields), and
  \<open>dynamic_hot_pixels\<close>, \<open>high_pass_filter\<close>, \<open>filter_return_image\<close> and the two mask flags
  hold the command. When some conversion is undefined, so is the behaviour.
\<close>

theorem apply_commands_sentinel_rule:
  "if conversions_defined cvt c
   then \<exists>s0 s'. merge_before_hw cvt c s = Inr s0 \<and>
          apply_commands cvt hw c s = Inr s' \<and>
          astro_camera_rule cvt c s s0 \<and>
          blob_rule c (all_blob_params (hw s0)) (all_blob_params s') \<and>
          all_astro_params s' = all_astro_params (hw s0) \<and>
          all_camera_params s' = all_camera_params (hw s0)
   else apply_commands cvt hw c s = Inl Undefined_conversion"
proof (cases "conversions_defined cvt c")
  case True
  then obtain s0 where s0: "merge_before_hw cvt c s = Inr s0"
    using merge_before_hw_total[of c cvt s] by (auto simp add: conversions_defined_def)
  from True obtain b where b: "merge_blob c (all_blob_params (hw s0)) = Inr b"
    using merge_blob_total[of c "all_blob_params (hw s0)"]
    by (auto simp add: conversions_defined_def)
  let ?s' = "(hw s0)\<lparr>all_blob_params := b\<rparr>"
  have "apply_commands cvt hw c s = Inr ?s'"
    using s0 b by (simp add: apply_commands_Inr merge_after_hw_Inr)
  moreover have "astro_camera_rule cvt c s s0"
    using s0 by (rule merge_before_hw_rule)
  moreover have "blob_rule c (all_blob_params (hw s0)) (all_blob_params ?s')"
    using merge_blob_rule[OF b] by simp
  ultimately show ?thesis
    using True s0 by auto
next
  case False
  have "apply_commands cvt hw c s = Inl Undefined_conversion"
  proof (cases "apply_commands cvt hw c s")
    case (Inl e)
    then show ?thesis by (simp add: fault_only[of e])
  next
    case (Inr s')
    with False show ?thesis by (simp add: apply_commands_defined)
  qed
  with False show ?thesis by simp
qed

text \<open>
  The rule of C1 on \<open>cmd_ex\<close>: the focus position, \<open>r_smooth\<close> and \<open>unique_star_spacing\<close>
  are kept, \<open>spike_limit\<close> becomes 2 for the command 2.5.
\<close>

theorem apply_commands_sentinel_rule_witness:
  "conversions_defined f2i cmd_ex \<and>
   merge_before_hw f2i cmd_ex store_ex = Inr (store_ex_merged\<lparr>all_blob_params := blob_ex\<rparr>) \<and>
   apply_commands f2i id cmd_ex store_ex = Inr store_ex_merged \<and>
   astro_camera_rule f2i cmd_ex store_ex (store_ex_merged\<lparr>all_blob_params := blob_ex\<rparr>) \<and>
   blob_rule cmd_ex blob_ex (all_blob_params store_ex_merged) \<and>
   focus_sentinel (cmd_focus_pos cmd_ex) \<and>
   focus_position (all_camera_params store_ex_merged) = focus_position (all_camera_params store_ex) \<and>
   \<not> blob_sentinel (cmd_blob_params cmd_ex 0) \<and>
   spike_limit (all_blob_params store_ex_merged) = 2 \<and>
   blob_sentinel (cmd_blob_params cmd_ex 8) \<and>
   unique_star_spacing (all_blob_params store_ex_merged) = unique_star_spacing blob_ex"
proof -
  have d: "conversions_defined f2i cmd_ex"
    by (simp add: conversions_defined_def blob_conversions_defined_def focus_sentinel_def
        blob_sentinel_def cmd_ex_def c_of_int_def trunc_def)
  have b: "merge_before_hw f2i cmd_ex store_ex = Inr (store_ex_merged\<lparr>all_blob_params := blob_ex\<rparr>)"
    by (simp add: merge_before_hw_def merge_camera_def
      merge_focus_def merge_exposure_def exposure_differs_def merge_astro_def
      bind_fault_def c_ne_def c_of_int_def
      cmd_ex_def store_ex_def store_ex_merged_def astro_ex_def camera_ex_def)
  have a: "apply_commands f2i id cmd_ex store_ex = Inr store_ex_merged"
    unfolding apply_commands_def b
    by (simp add: merge_after_hw_def merge_blob_def
      guarded_int_def store_int_def bind_fault_def c_ge_def c_of_int_def trunc_def
      cmd_ex_def store_ex_merged_def blob_ex_def)
  from apply_commands_sentinel_rule[of f2i cmd_ex store_ex id] d a b
  have "astro_camera_rule f2i cmd_ex store_ex (store_ex_merged\<lparr>all_blob_params := blob_ex\<rparr>) \<and>
     blob_rule cmd_ex blob_ex (all_blob_params store_ex_merged)"
    by auto
  with d a b show ?thesis
    by (simp add: focus_sentinel_def blob_sentinel_def cmd_ex_def c_of_int_def
        store_ex_merged_def store_ex_def camera_ex_def blob_ex_def)
qed

text \<open>
  C1 as it is stated takes the negative values for the sentinels of \<open>n_sigma\<close> and lets
  every other value overwrite the field. A NaN is not negative, and the field keeps its
  old value 2.
\<close>

theorem nan_command_is_not_stored:
  "\<not> c_lt (cmd_blob_params cmd_ex 7) (c_of_int 0) \<and>
   apply_commands f2i id cmd_ex store_ex = Inr store_ex_merged \<and>
   n_sigma (all_blob_params store_ex_merged) = n_sigma (all_blob_params store_ex) \<and>
   n_sigma (all_blob_params store_ex_merged) \<noteq> cmd_blob_params cmd_ex 7"
proof -
  have b: "merge_before_hw f2i cmd_ex store_ex = Inr (store_ex_merged\<lparr>all_blob_params := blob_ex\<rparr>)"
    by (simp add: merge_before_hw_def merge_camera_def
      merge_focus_def merge_exposure_def exposure_differs_def merge_astro_def
      bind_fault_def c_ne_def c_of_int_def
      cmd_ex_def store_ex_def store_ex_merged_def astro_ex_def camera_ex_def)
  have a: "apply_commands f2i id cmd_ex store_ex = Inr store_ex_merged"
    unfolding apply_commands_def b
    by (simp add: merge_after_hw_def merge_blob_def
      guarded_int_def store_int_def bind_fault_def c_ge_def c_of_int_def trunc_def
      cmd_ex_def store_ex_merged_def blob_ex_def)
  show ?thesis
    using a by (simp add: cmd_ex_def store_ex_merged_def store_ex_def blob_ex_def)
qed



section \<open>Proofs: a client session\<close>

lemma processClient_steps:
  "pc t = At_recv \<Longrightarrow> processClient_step cvt hw a g t =
     (g\<lparr>all_cmds := recv_buf a\<rparr>,
      t\<lparr>recv_status := recv_ret a, pc := (if recv_ret a = - 1 then At_snapshot else At_wait)\<rparr>)"
  "pc t = At_wait \<Longrightarrow> processClient_step cvt hw a g t =
     (g, if command_lock g \<noteq> 0 then t else t\<lparr>pc := At_lock\<rparr>)"
  "pc t = At_lock \<Longrightarrow> processClient_step cvt hw a g t = (g\<lparr>command_lock := 1\<rparr>, t\<lparr>pc := At_merge\<rparr>)"
  "pc t = At_snapshot \<Longrightarrow> processClient_step cvt hw a g t =
     (g\<lparr>all_data := snapshot (st g)\<rparr>, t\<lparr>pc := At_send_telemetry\<rparr>)"
  "pc t = At_send_telemetry \<Longrightarrow> processClient_step cvt hw a g t =
     (if send_ret a \<le> 0 then (g, t\<lparr>pc := At_close\<rparr>)
      else (g, t\<lparr>wire := wire t @ [Sent_telemetry (all_data g)], pc := At_send_image\<rparr>))"
  "pc t = At_send_image \<Longrightarrow> processClient_step cvt hw a g t =
     (if send_ret a \<le> 0 then (g, t\<lparr>pc := At_close\<rparr>)
      else (g, t\<lparr>wire := wire t @ [Sent_image (camera_raw g) (CAMERA_WIDTH * CAMERA_HEIGHT)],
                 pc := At_recv\<rparr>))"
  by (simp_all add: processClient_step_def)

text \<open>
  Only the steps at \<open>At_lock\<close>, \<open>At_merge\<close> and \<open>At_unlock\<close> write the three structures or
  \<^verbatim>\<open>command_lock\<close>, whatever the other threads do in between.
\<close>

lemma step_outside_merge_keeps_store:
  assumes "pc t \<noteq> At_lock" and "pc t \<noteq> At_merge" and "pc t \<noteq> At_unlock"
  shows "st (fst (processClient_step cvt hw a g t)) = st g"
    and "command_lock (fst (processClient_step cvt hw a g t)) = command_lock g"
  using assms by (cases "pc t"; simp add: processClient_step_def)+

lemma sys_step_at:
  assumes "processClient_step cvt hw a (globals sys) (threads sys t) = (g, th)"
  shows "globals (sys_step cvt hw sys (t, a)) = g"
    and "threads (sys_step cvt hw sys (t, a)) t = th"
  using assms by (simp_all add: sys_step_def)

lemma run_Cons: "run cvt hw (e # es) sys = run cvt hw es (sys_step cvt hw sys e)"
  by (simp add: run_def)

lemma run_Nil: "run cvt hw [] sys = sys"
  by (simp add: run_def)

text \<open>
  C4, as amended. A session whose \<^verbatim>\<open>recvfrom\<close> returns \<open>-1\<close> takes its next steps
  without a change to the three structures or to \<^verbatim>\<open>command_lock\<close>, and copies the three
  structures, each whole, into \<^verbatim>\<open>all_data\<close>. When the first \<^verbatim>\<open>send\<close> succeeds, that copy
  has gone out, and when the second succeeds as well, the image buffer has followed with
  \<^verbatim>\<open>CAMERA_WIDTH*CAMERA_HEIGHT\<close> = 2354176 bytes, the socket is as before, and the session
  is back at \<^verbatim>\<open>recvfrom\<close>. When the first \<^verbatim>\<open>send\<close> fails, nothing has gone out and the
  socket is closed; when the second fails, the telemetry alone has gone out and the next
  step closes the socket.
\<close>

theorem failed_receive_cycle:
  assumes "pc (threads sys t) = At_recv" and "recv_ret a1 = - 1"
  shows
   "st (globals (run cvt hw [(t, a1), (t, a2), (t, a3), (t, a4)] sys)) = st (globals sys) \<and>
    command_lock (globals (run cvt hw [(t, a1), (t, a2), (t, a3), (t, a4)] sys)) =
      command_lock (globals sys) \<and>
    all_data (globals (run cvt hw [(t, a1), (t, a2), (t, a3), (t, a4)] sys)) =
      \<lparr>astrom = all_astro_params (st (globals sys)),
       cam_settings = all_camera_params (st (globals sys)),
       current_blob_params = all_blob_params (st (globals sys))\<rparr> \<and>
    CAMERA_WIDTH * CAMERA_HEIGHT = 2354176 \<and>
    (if 0 < send_ret a3
     then if 0 < send_ret a4
          then wire (threads (run cvt hw [(t, a1), (t, a2), (t, a3), (t, a4)] sys) t) =
                 wire (threads sys t) @
                   [Sent_telemetry
                      \<lparr>astrom = all_astro_params (st (globals sys)),
                       cam_settings = all_camera_params (st (globals sys)),
                       current_blob_params = all_blob_params (st (globals sys))\<rparr>,
                    Sent_image (camera_raw (globals sys)) 2354176] \<and>
               pc (threads (run cvt hw [(t, a1), (t, a2), (t, a3), (t, a4)] sys) t) = At_recv \<and>
               socket_open (threads (run cvt hw [(t, a1), (t, a2), (t, a3), (t, a4)] sys) t) =
                 socket_open (threads sys t)
          else wire (threads (run cvt hw [(t, a1), (t, a2), (t, a3), (t, a4)] sys) t) =
                 wire (threads sys t) @
                   [Sent_telemetry
                      \<lparr>astrom = all_astro_params (st (globals sys)),
                       cam_settings = all_camera_params (st (globals sys)),
                       current_blob_params = all_blob_params (st (globals sys))\<rparr>] \<and>
               pc (threads (run cvt hw [(t, a1), (t, a2), (t, a3), (t, a4)] sys) t) = At_close \<and>
               \<not> socket_open
                   (threads (run cvt hw [(t, a1), (t, a2), (t, a3), (t, a4), (t, a5)] sys) t)
     else wire (threads (run cvt hw [(t, a1), (t, a2), (t, a3), (t, a4)] sys) t) =
            wire (threads sys t) \<and>
          pc (threads (run cvt hw [(t, a1), (t, a2), (t, a3), (t, a4)] sys) t) = Finished \<and>
          \<not> socket_open (threads (run cvt hw [(t, a1), (t, a2), (t, a3), (t, a4)] sys) t))"
proof -
  let ?g = "globals sys"
  let ?th = "threads sys t"
  let ?s1 = "sys_step cvt hw sys (t, a1)"
  let ?s2 = "sys_step cvt hw ?s1 (t, a2)"
  let ?s3 = "sys_step cvt hw ?s2 (t, a3)"
  let ?s4 = "sys_step cvt hw ?s3 (t, a4)"
  let ?s5 = "sys_step cvt hw ?s4 (t, a5)"
  let ?packet = "\<lparr>astrom = all_astro_params (st ?g), cam_settings = all_camera_params (st ?g),
      current_blob_params = all_blob_params (st ?g)\<rparr>"
  let ?g2 = "?g\<lparr>all_cmds := recv_buf a1, all_data := ?packet\<rparr>"
  have r4: "run cvt hw [(t, a1), (t, a2), (t, a3), (t, a4)] sys = ?s4"
    by (simp add: run_Cons run_Nil)
  have r5: "run cvt hw [(t, a1), (t, a2), (t, a3), (t, a4), (t, a5)] sys = ?s5"
    by (simp add: run_Cons run_Nil)
  have "processClient_step cvt hw a1 ?g ?th =
      (?g\<lparr>all_cmds := recv_buf a1\<rparr>, ?th\<lparr>recv_status := - 1, pc := At_snapshot\<rparr>)"
    using assms by (simp add: processClient_steps)
  note s1 = sys_step_at[OF this]
  have "processClient_step cvt hw a2 (globals ?s1) (threads ?s1 t) =
      (?g2, ?th\<lparr>recv_status := - 1, pc := At_send_telemetry\<rparr>)"
    unfolding s1 by (simp add: processClient_steps snapshot_def)
  note s2 = sys_step_at[OF this]
  have size: "CAMERA_WIDTH * CAMERA_HEIGHT = 2354176"
    by (simp add: CAMERA_WIDTH_def CAMERA_HEIGHT_def)
  show ?thesis
  proof (cases "0 < send_ret a3")
    case False
    then have "processClient_step cvt hw a3 (globals ?s2) (threads ?s2 t) =
        (?g2, ?th\<lparr>recv_status := - 1, pc := At_close\<rparr>)"
      unfolding s2 by (simp add: processClient_steps)
    note s3 = sys_step_at[OF this]
    have "processClient_step cvt hw a4 (globals ?s3) (threads ?s3 t) =
        (?g2, ?th\<lparr>recv_status := - 1, socket_open := False, pc := Finished\<rparr>)"
      unfolding s3 by (simp add: processClient_step_def)
    note s4 = sys_step_at[OF this]
    from False show ?thesis
      unfolding r4 r5 s4 by (simp add: size)
  next
    case True
    then have "processClient_step cvt hw a3 (globals ?s2) (threads ?s2 t) =
        (?g2, ?th\<lparr>recv_status := - 1, wire := wire ?th @ [Sent_telemetry ?packet],
                  pc := At_send_image\<rparr>)"
      unfolding s2 by (simp add: processClient_steps)
    note s3 = sys_step_at[OF this]
    show ?thesis
    proof (cases "0 < send_ret a4")
      case False
      then have "processClient_step cvt hw a4 (globals ?s3) (threads ?s3 t) =
          (?g2, ?th\<lparr>recv_status := - 1, wire := wire ?th @ [Sent_telemetry ?packet],
                    pc := At_close\<rparr>)"
        unfolding s3 by (simp add: processClient_steps)
      note s4 = sys_step_at[OF this]
      have "processClient_step cvt hw a5 (globals ?s4) (threads ?s4 t) =
          (?g2, ?th\<lparr>recv_status := - 1, wire := wire ?th @ [Sent_telemetry ?packet],
                    socket_open := False, pc := Finished\<rparr>)"
        unfolding s4 by (simp add: processClient_step_def)
      note s5 = sys_step_at[OF this]
      from True False show ?thesis
        unfolding r4 r5 s4 s5 by (simp add: size)
    next
      case a4: True
      then have "processClient_step cvt hw a4 (globals ?s3) (threads ?s3 t) =
          (?g2, ?th\<lparr>recv_status := - 1,
                    wire := wire ?th @ [Sent_telemetry ?packet,
                                        Sent_image (camera_raw ?g) 2354176],
                    pc := At_recv\<rparr>)"
        unfolding s3 by (simp add: processClient_steps size)
      note s4 = sys_step_at[OF this]
      from True a4 show ?thesis
        unfolding r4 r5 s4 by (simp add: size)
    qed
  qed
qed

text \<open>
  C4 on the first session of \<open>system_ex\<close>, with both calls of \<^verbatim>\<open>send\<close> successful: the
  packet sent holds the three structures of \<open>store_ex\<close>.
\<close>

theorem failed_receive_cycle_witness:
  "pc (threads system_ex 0) = At_recv \<and> recv_ret timed_out = - 1 \<and> 0 < send_ret sent_all \<and>
   st (globals (run f2i id [(0, timed_out), (0, timed_out), (0, sent_all), (0, sent_all)] system_ex))
     = store_ex \<and>
   wire (threads (run f2i id [(0, timed_out), (0, timed_out), (0, sent_all), (0, sent_all)] system_ex) 0)
     = [Sent_telemetry
          \<lparr>astrom = astro_ex, cam_settings = camera_ex, current_blob_params = blob_ex\<rparr>,
        Sent_image (\<lambda>i. 0) 2354176] \<and>
   pc (threads (run f2i id [(0, timed_out), (0, timed_out), (0, sent_all), (0, sent_all)] system_ex) 0)
     = At_recv \<and>
   socket_open (threads (run f2i id [(0, timed_out), (0, timed_out), (0, sent_all), (0, sent_all)] system_ex) 0)"
proof -
  have h: "pc (threads system_ex 0) = At_recv" "recv_ret timed_out = - 1" "0 < send_ret sent_all"
    by (simp_all add: system_ex_def thread_ex_def timed_out_def sent_all_def)
  from failed_receive_cycle[OF h(1) h(2), of f2i id timed_out sent_all sent_all] h
  show ?thesis
    by (simp add: system_ex_def thread_ex_def store_ex_def)
qed

text \<open>
  C4 as it is stated keeps the connection open after a failed receive. When the
  \<^verbatim>\<open>send\<close> of the telemetry fails in that cycle, nothing has gone out and the socket is
  closed.
\<close>

theorem failed_send_closes_connection:
  "recv_ret timed_out = - 1 \<and>
   socket_open (threads system_ex 0) \<and>
   wire (threads
     (run f2i id [(0, timed_out), (0, timed_out), (0, send_failed), (0, send_failed)] system_ex) 0)
     = [] \<and>
   pc (threads
     (run f2i id [(0, timed_out), (0, timed_out), (0, send_failed), (0, send_failed)] system_ex) 0)
     = Finished \<and>
   \<not> socket_open (threads
     (run f2i id [(0, timed_out), (0, timed_out), (0, send_failed), (0, send_failed)] system_ex) 0)"
  by (simp add: run_Cons run_Nil sys_step_def processClient_step_def
      system_ex_def thread_ex_def timed_out_def send_failed_def)

text \<open>
  C9. The claim is that no two sessions are between \<^verbatim>\<open>command_lock = 1\<close> and
  \<^verbatim>\<open>command_lock = 0\<close> at once. After \<open>race_schedule\<close> both sessions are.
\<close>

theorem two_sessions_in_merge_region:
  "in_merge_region (threads (run f2i id race_schedule system_ex) 0) \<and>
   in_merge_region (threads (run f2i id race_schedule system_ex) 1) \<and>
   command_lock (globals (run f2i id race_schedule system_ex)) = 1"
  by (simp add: race_schedule_def run_Cons run_Nil sys_step_def processClient_step_def
      system_ex_def thread_ex_def received_def in_merge_region_def)

section \<open>Proofs: the solver\<close>



lemma c_ge_not_lt: "c_ge a b \<Longrightarrow> \<not> c_lt a b"
  by (cases a; cases b) (auto simp add: c_ge_def)

lemma add_if_close_indexes:
  "indexes (add_if_close lib r d sv i) = indexes sv @ (if selected lib r d i then [i] else [])"
  by (auto simp add: add_if_close_def solver_add_index_def selected_def dest: c_ge_not_lt)

lemma add_indexes_indexes:
  "indexes (add_indexes lib r d is sv) = indexes sv @ filter (selected lib r d) is"
  by (induction "is" arbitrary: sv) (simp_all add: add_if_close_indexes)


lemma prepare_solver_indexes:
  "indexes (prepare_solver lib env idxs sx sy sm n a sv) =
     indexes sv @ filter (selected lib (stack_ra env) (stack_dec env)) idxs"
  by (simp add: prepare_solver_def add_indexes_indexes set_field_def configure_solver_def
      solver_set_field_bounds_def solver_set_field_def solver_set_keep_logodds_def Let_def)


text \<open>
  C3. When the search finds no match, the function returns 0, and the astrometry
  structure and every file are as they were.
\<close>

theorem no_match_changes_nothing:
  assumes "solver_run lib (prepare_solver lib env idxs sx sy sm n (astro_params w) (solver w)) = None"
  shows "\<exists>w'. lostInSpace lib env idxs sx sy sm n tm_info datafile exposure w = Inr (0, w') \<and>
           astro_params w' = astro_params w \<and> disk w' = disk w"
  using assms by (simp add: lostInSpace_def Let_def)

text \<open>C3 on a run in which the solver holds no index.\<close>

theorem no_match_changes_nothing_witness:
  "solver_run lib_ex (prepare_solver lib_ex (env_ex NaN) [1, 2, 3] (\<lambda>i. Num 0) (\<lambda>i. Num 0)
       (\<lambda>i. Num 0) 0 (astro_params world_ex) (solver world_ex)) = None \<and>
   (\<exists>w'. solve_ex NaN = Inr (0, w') \<and> astro_params w' = astro_ex \<and> disk w' = disk world_ex)"
proof -
  have h: "solver_run lib_ex (prepare_solver lib_ex (env_ex NaN) [1, 2, 3] (\<lambda>i. Num 0) (\<lambda>i. Num 0)
       (\<lambda>i. Num 0) 0 (astro_params world_ex) (solver world_ex)) = None"
    by (simp add: prepare_solver_indexes selected_def
      world_ex_def solver_ex_def lib_ex_def env_ex_def c_ge_def c_of_int_def)
  from no_match_changes_nothing[OF h, of tm_ex "''data.txt''" "Num 800"] h
  show ?thesis
    by (simp add: solve_ex_def world_ex_def)
qed

lemma lostInSpace_solved:
  assumes "solver_run lib (prepare_solver lib env idxs sx sy sm n (astro_params w) (solver w))
             = Some wcs"
    and "fopen_ok env"
  shows "lostInSpace lib env idxs sx sy sm n tm_info datafile exposure w =
     Inr (1,
       \<lparr>astro_params = solution lib tm_info exposure (astro_params w) wcs,
        solver = solver_clear_indexes (solver_cleanup_field
          (prepare_solver lib env idxs sx sy sm n (astro_params w) (solver w))),
        disk = (disk w)(datafile := Some (content (disk w) datafile @
          fclose_file env (fprintf_buffer env
            (solution_text n (solution lib tm_info exposure (astro_params w) wcs)
               (c_mul (astrom_time env) (Num 0.000001))))))\<rparr>)"
  using assms by (simp add: lostInSpace_def write_solution_def Let_def)

lemma written_text:
  assumes "0 \<le> fprintf_ret env" and "fclose_ret env = 0"
  shows "fclose_file env (fprintf_buffer env text) = text"
  using assms by (simp add: fclose_file_def fprintf_buffer_def)

text \<open>
  A record that \<^verbatim>\<open>fprintf\<close> has accepted is lost when \<^verbatim>\<open>fclose\<close> cannot write it, and
  the function returns 1 all the same.
\<close>

lemma record_lost_when_fclose_fails:
  assumes "solver_run lib (prepare_solver lib env idxs sx sy sm n (astro_params w) (solver w))
             = Some wcs"
    and "fopen_ok env" and "fclose_ret env \<noteq> 0" and "fclose_written env = []"
  shows "\<exists>w'. lostInSpace lib env idxs sx sy sm n tm_info datafile exposure w = Inr (1, w') \<and>
     content (disk w') datafile = content (disk w) datafile"
  unfolding lostInSpace_solved[OF assms(1,2)]
  using assms(3,4) by (simp add: content_def fclose_file_def)

lemma newlines_append: "newlines (xs @ ys) = newlines xs + newlines ys"
  by (simp add: newlines_def)

lemma newlines_solution_text: "newlines (solution_text n a ms) = 0"
  by (simp add: newlines_def solution_text_def)

lemma ends_open_solution_text: "ends_open (xs @ solution_text n a ms)"
  by (simp add: ends_open_def solution_text_def)

lemma line_count_solution_text:
  "line_count (xs @ solution_text n a ms) = newlines xs + 1"
  by (simp add: line_count_def ends_open_solution_text newlines_append newlines_solution_text)

lemma astrom_time_eq:
  "astrom_time env =
     c_sub (c_add (c_mul (c_of_int (sint (tv_sec (clock_end env)))) (Num 1000000000))
                  (c_of_int (sint (tv_nsec (clock_end env)))))
           (c_add (c_mul (c_of_int (sint (tv_sec (clock_begin env)))) (Num 1000000000))
                  (c_of_int (sint (tv_nsec (clock_begin env)))))"
  by (simp add: astrom_time_def nanoseconds_def)

text \<open>
  C6, as amended. When the search finds a match and the log opens, the function returns
  1, the log starts with its old content, and no other file changes. When moreover
  \<^verbatim>\<open>fprintf\<close> and \<^verbatim>\<open>fclose\<close> succeed, the log is its old content followed by one record:
  the number of blobs, then \<open>ra\<close>, \<open>dec\<close>, \<open>fr\<close>, \<open>ps\<close>, \<open>alt\<close>, \<open>az\<close>, \<open>ir\<close> of the new state
  and the elapsed time, each after a \<open>|\<close>; the elapsed time is the second reading of the
  clock less the first, in nanoseconds, times \<open>0.000001\<close>. The record ends no line: the
  log has as many line ends as before, and stops in the middle of its last line.
\<close>

theorem solution_appended_to_log:
  assumes "solver_run lib (prepare_solver lib env idxs sx sy sm n (astro_params w) (solver w))
             = Some wcs"
    and "fopen_ok env"
  shows "\<exists>w'. lostInSpace lib env idxs sx sy sm n tm_info datafile exposure w = Inr (1, w') \<and>
     (\<exists>rest. content (disk w') datafile = content (disk w) datafile @ rest) \<and>
     (\<forall>name. name \<noteq> datafile \<longrightarrow> disk w' name = disk w name) \<and>
     (0 \<le> fprintf_ret env \<and> fclose_ret env = 0 \<longrightarrow>
        content (disk w') datafile = content (disk w) datafile @
          [Conv_i n, Lit ''|'', Conv_f 6 (ra (astro_params w')), Lit ''|'',
           Conv_f 6 (dec (astro_params w')), Lit ''|'', Conv_f 6 (fr (astro_params w')), Lit ''|'',
           Conv_f 6 (ps (astro_params w')), Lit ''|'', Conv_f 15 (alt (astro_params w')), Lit ''|'',
           Conv_f 15 (az (astro_params w')), Lit ''|'', Conv_f 6 (ir (astro_params w')), Lit ''|'',
           Conv_f 6
             (c_mul
               (c_sub
                 (c_add (c_mul (c_of_int (sint (tv_sec (clock_end env)))) (Num 1000000000))
                    (c_of_int (sint (tv_nsec (clock_end env)))))
                 (c_add (c_mul (c_of_int (sint (tv_sec (clock_begin env)))) (Num 1000000000))
                    (c_of_int (sint (tv_nsec (clock_begin env))))))
               (Num 0.000001))] \<and>
        newlines (content (disk w') datafile) = newlines (content (disk w) datafile) \<and>
        line_count (content (disk w') datafile) = newlines (content (disk w) datafile) + 1)"
proof -
  let ?a = "solution lib tm_info exposure (astro_params w) wcs"
  let ?text = "solution_text n ?a (c_mul (astrom_time env) (Num 0.000001))"
  let ?w' = "\<lparr>astro_params = ?a,
        solver = solver_clear_indexes (solver_cleanup_field
          (prepare_solver lib env idxs sx sy sm n (astro_params w) (solver w))),
        disk = (disk w)(datafile := Some (content (disk w) datafile @
          fclose_file env (fprintf_buffer env ?text)))\<rparr>"
  have c: "content (disk ?w') datafile =
      content (disk w) datafile @ fclose_file env (fprintf_buffer env ?text)"
    by (simp add: content_def)
  have other: "\<forall>name. name \<noteq> datafile \<longrightarrow> disk ?w' name = disk w name"
    by simp
  have good: "content (disk ?w') datafile = content (disk w) datafile @ ?text"
    if "0 \<le> fprintf_ret env \<and> fclose_ret env = 0"
    using that by (simp add: content_def written_text)
  have ap: "astro_params ?w' = ?a"
    by simp
  have rec: "?text =
      [Conv_i n, Lit ''|'', Conv_f 6 (ra ?a), Lit ''|'',
       Conv_f 6 (dec ?a), Lit ''|'', Conv_f 6 (fr ?a), Lit ''|'',
       Conv_f 6 (ps ?a), Lit ''|'', Conv_f 15 (alt ?a), Lit ''|'',
       Conv_f 15 (az ?a), Lit ''|'', Conv_f 6 (ir ?a), Lit ''|'',
       Conv_f 6
         (c_mul
           (c_sub
             (c_add (c_mul (c_of_int (sint (tv_sec (clock_end env)))) (Num 1000000000))
                (c_of_int (sint (tv_nsec (clock_end env)))))
             (c_add (c_mul (c_of_int (sint (tv_sec (clock_begin env)))) (Num 1000000000))
                (c_of_int (sint (tv_nsec (clock_begin env))))))
           (Num 0.000001))]"
    unfolding astrom_time_eq[symmetric] by (simp add: solution_text_def)
  have eq: "lostInSpace lib env idxs sx sy sm n tm_info datafile exposure w = Inr (1, ?w')"
    by (rule lostInSpace_solved[OF assms])
  have pre: "\<exists>rest. content (disk ?w') datafile = content (disk w) datafile @ rest"
    using c by blast
  have full: "0 \<le> fprintf_ret env \<and> fclose_ret env = 0 \<longrightarrow>
      content (disk ?w') datafile = content (disk w) datafile @
        [Conv_i n, Lit ''|'', Conv_f 6 (ra ?a), Lit ''|'',
         Conv_f 6 (dec ?a), Lit ''|'', Conv_f 6 (fr ?a), Lit ''|'',
         Conv_f 6 (ps ?a), Lit ''|'', Conv_f 15 (alt ?a), Lit ''|'',
         Conv_f 15 (az ?a), Lit ''|'', Conv_f 6 (ir ?a), Lit ''|'',
         Conv_f 6
           (c_mul
             (c_sub
               (c_add (c_mul (c_of_int (sint (tv_sec (clock_end env)))) (Num 1000000000))
                  (c_of_int (sint (tv_nsec (clock_end env)))))
               (c_add (c_mul (c_of_int (sint (tv_sec (clock_begin env)))) (Num 1000000000))
                  (c_of_int (sint (tv_nsec (clock_begin env))))))
             (Num 0.000001))] \<and>
      newlines (content (disk ?w') datafile) = newlines (content (disk w) datafile) \<and>
      line_count (content (disk ?w') datafile) = newlines (content (disk w) datafile) + 1"
    unfolding rec[symmetric]
    using good by (simp add: newlines_append newlines_solution_text line_count_solution_text)
  show ?thesis
    apply (rule exI[of _ ?w'])
    unfolding ap
    using eq pre other full by blast
qed

lemma solve_ex_solved:
  "solver_run lib_ex (prepare_solver lib_ex (env_ex (Num (- 200))) [1, 2, 3] (\<lambda>i. Num 0)
      (\<lambda>i. Num 0) (\<lambda>i. Num 0) 0 (astro_params world_ex) (solver world_ex)) = Some (Num 10, Num 20)"
  "fopen_ok (env_ex (Num (- 200)))"
  by (simp_all add: prepare_solver_indexes selected_def world_ex_def solver_ex_def lib_ex_def
      env_ex_def c_ge_def c_of_int_def)

lemma env_ex_writes:
  "0 \<le> fprintf_ret (env_ex r) \<and> fclose_ret (env_ex r) = 0"
  by (simp add: env_ex_def)

lemma solution_ex:
  "solution lib_ex tm_ex (Num 800) astro_ex (Num 10, Num 20) =
     astro_ex\<lparr>ir := Num (0.75 * (180 / M_PI) + 30), ra := Num (2 * (180 / M_PI)),
               dec := Num (0.125 * (180 / M_PI)), alt := Num (90 - 0.5 * (180 / M_PI)),
               az := Num (180 / M_PI), fr := Num 30, ps := Num 6.25\<rparr>"
  by (simp add: solution_def observed_def lib_ex_def Let_def deg_per_rad_def M_PI_def c_sub_def)

lemma elapsed_ex:
  "c_mul
     (c_sub
       (c_add (c_mul (c_of_int (sint (tv_sec (clock_end (env_ex r))))) (Num 1000000000))
          (c_of_int (sint (tv_nsec (clock_end (env_ex r))))))
       (c_add (c_mul (c_of_int (sint (tv_sec (clock_begin (env_ex r))))) (Num 1000000000))
          (c_of_int (sint (tv_nsec (clock_begin (env_ex r)))))))
     (Num 0.000001) = Num 1500"
  by (simp add: env_ex_def c_of_int_def c_sub_def)

lemma world_solved_eq:
  "solve_ex (Num (- 200)) = Inr (1, world_solved)"
  "content (disk world_solved) ''data.txt'' =
     [Lit ''log'', Lit [CHR 0x0A]] @
     solution_text 0 (solution lib_ex tm_ex (Num 800) astro_ex (Num 10, Num 20))
       (c_mul (astrom_time (env_ex (Num (- 200)))) (Num 0.000001))"
  "astro_params world_solved = solution lib_ex tm_ex (Num 800) astro_ex (Num 10, Num 20)"
  unfolding world_solved_def solve_ex_def lostInSpace_solved[OF solve_ex_solved]
  by (simp_all add: content_def written_text[OF env_ex_writes[THEN conjunct1]
        env_ex_writes[THEN conjunct2]] world_ex_def)

text \<open>
  C6 on a run with a match, over a log of one line: the record of 17 pieces, with the
  values of the run and the elapsed time of 1500 milliseconds between the readings
  100 s and 101.5 s.
\<close>

theorem solution_appended_to_log_witness:
  "solver_run lib_ex (prepare_solver lib_ex (env_ex (Num (- 200))) [1, 2, 3] (\<lambda>i. Num 0)
      (\<lambda>i. Num 0) (\<lambda>i. Num 0) 0 (astro_params world_ex) (solver world_ex)) = Some (Num 10, Num 20) \<and>
   fopen_ok (env_ex (Num (- 200))) \<and>
   0 \<le> fprintf_ret (env_ex (Num (- 200))) \<and> fclose_ret (env_ex (Num (- 200))) = 0 \<and>
   (\<exists>w'. solve_ex (Num (- 200)) = Inr (1, w') \<and>
      content (disk w') ''data.txt'' =
        [Lit ''log'', Lit [CHR 0x0A],
         Conv_i 0, Lit ''|'', Conv_f 6 (Num (2 * (180 / M_PI))), Lit ''|'',
         Conv_f 6 (Num (0.125 * (180 / M_PI))), Lit ''|'', Conv_f 6 (Num 30), Lit ''|'',
         Conv_f 6 (Num 6.25), Lit ''|'', Conv_f 15 (Num (90 - 0.5 * (180 / M_PI))), Lit ''|'',
         Conv_f 15 (Num (180 / M_PI)), Lit ''|'',
         Conv_f 6 (Num (0.75 * (180 / M_PI) + 30)), Lit ''|'',
         Conv_f 6 (Num 1500)] \<and>
      newlines (content (disk w') ''data.txt'') = 1 \<and>
      line_count (content (disk w') ''data.txt'') = 2 \<and>
      disk w' ''other.txt'' = None)"
proof -
  have c: "content (disk world_ex) ''data.txt'' = [Lit ''log'', Lit [CHR 0x0A]]"
    by (simp add: content_def world_ex_def)
  have n: "newlines [Lit ''log'', Lit [CHR 0x0A]] = 1"
    by (simp add: newlines_def)
  from solution_appended_to_log[OF solve_ex_solved, of tm_ex "''data.txt''" "Num 800"]
    env_ex_writes[of "Num (- 200)"]
  obtain w' where w': "solve_ex (Num (- 200)) = Inr (1, w')"
    "content (disk w') ''data.txt'' = [Lit ''log'', Lit [CHR 0x0A]] @
       [Conv_i 0, Lit ''|'', Conv_f 6 (ra (astro_params w')), Lit ''|'',
        Conv_f 6 (dec (astro_params w')), Lit ''|'', Conv_f 6 (fr (astro_params w')), Lit ''|'',
        Conv_f 6 (ps (astro_params w')), Lit ''|'', Conv_f 15 (alt (astro_params w')), Lit ''|'',
        Conv_f 15 (az (astro_params w')), Lit ''|'', Conv_f 6 (ir (astro_params w')), Lit ''|'',
        Conv_f 6 (Num 1500)]"
    "newlines (content (disk w') ''data.txt'') = 1"
    "line_count (content (disk w') ''data.txt'') = 2"
    "\<forall>name. name \<noteq> ''data.txt'' \<longrightarrow> disk w' name = disk world_ex name"
    unfolding solve_ex_def c n elapsed_ex by auto
  from w'(1) have "w' = world_solved"
    by (simp add: world_solved_eq(1))
  then have a: "astro_params w' =
      astro_ex\<lparr>ir := Num (0.75 * (180 / M_PI) + 30), ra := Num (2 * (180 / M_PI)),
               dec := Num (0.125 * (180 / M_PI)), alt := Num (90 - 0.5 * (180 / M_PI)),
               az := Num (180 / M_PI), fr := Num 30, ps := Num 6.25\<rparr>"
    by (simp only: world_solved_eq(3) solution_ex)
  have o: "disk w' ''other.txt'' = None"
    using w'(5) by (simp add: world_ex_def)
  have "content (disk w') ''data.txt'' =
        [Lit ''log'', Lit [CHR 0x0A],
         Conv_i 0, Lit ''|'', Conv_f 6 (Num (2 * (180 / M_PI))), Lit ''|'',
         Conv_f 6 (Num (0.125 * (180 / M_PI))), Lit ''|'', Conv_f 6 (Num 30), Lit ''|'',
         Conv_f 6 (Num 6.25), Lit ''|'', Conv_f 15 (Num (90 - 0.5 * (180 / M_PI))), Lit ''|'',
         Conv_f 15 (Num (180 / M_PI)), Lit ''|'',
         Conv_f 6 (Num (0.75 * (180 / M_PI) + 30)), Lit ''|'',
         Conv_f 6 (Num 1500)]"
    unfolding w'(2) a by simp
  with w'(1,3,4) o solve_ex_solved env_ex_writes[of "Num (- 200)"] show ?thesis
    by blast
qed

lemma solve_again_solved:
  "solver_run lib_ex (prepare_solver lib_ex (env_ex (Num (- 200))) [1, 2, 3] (\<lambda>i. Num 0)
      (\<lambda>i. Num 0) (\<lambda>i. Num 0) 0 (astro_params world_solved) (solver world_solved))
     = Some (Num 10, Num 20)"
  by (simp add: prepare_solver_indexes selected_def lib_ex_def env_ex_def c_ge_def c_of_int_def)

text \<open>
  C6 as it is stated gives the log one new line for each solution. Two calls with a match
  in a row both return 1. The log has one line end before them, after the first and
  after the second; counted with a last line that has no line end, it has two lines
  after the first call and two after the second, whose record of 17 pieces continues
  the line of the first.
\<close>

theorem second_solve_adds_no_line:
  "\<not> isl (solve_ex (Num (- 200))) \<and> fst (projr (solve_ex (Num (- 200)))) = 1 \<and>
   \<not> isl solve_again \<and> fst (projr solve_again) = 1 \<and>
   newlines (content (disk world_ex) ''data.txt'') = 1 \<and>
   newlines (content (disk world_solved) ''data.txt'') = 1 \<and>
   newlines (content (disk (snd (projr solve_again))) ''data.txt'') = 1 \<and>
   line_count (content (disk world_solved) ''data.txt'') = 2 \<and>
   line_count (content (disk (snd (projr solve_again))) ''data.txt'') = 2 \<and>
   length (content (disk (snd (projr solve_again))) ''data.txt'') =
     length (content (disk world_solved) ''data.txt'') + 17"
proof -
  have n: "newlines [Lit ''log'', Lit [CHR 0x0A]] = 1"
    by (simp add: newlines_def)
  have first: "newlines (content (disk world_ex) ''data.txt'') = 1"
    by (simp add: content_def world_ex_def n)
  have again: "content (disk (snd (projr solve_again))) ''data.txt'' =
      content (disk world_solved) ''data.txt'' @
      solution_text 0
        (solution lib_ex tm_ex (Num 800) (astro_params world_solved) (Num 10, Num 20))
        (c_mul (astrom_time (env_ex (Num (- 200)))) (Num 0.000001))"
    "\<not> isl solve_again" "fst (projr solve_again) = 1"
    unfolding solve_again_def lostInSpace_solved[OF solve_again_solved solve_ex_solved(2)]
    by (simp_all add: content_def written_text[OF env_ex_writes[THEN conjunct1]
          env_ex_writes[THEN conjunct2]])
  have len: "length (solution_text 0 a ms) = 17" for a ms
    by (simp add: solution_text_def)
  have n1: "newlines (content (disk world_solved) ''data.txt'') = 1"
    unfolding world_solved_eq(2) by (simp only: newlines_append newlines_solution_text n)
  have l1: "line_count (content (disk world_solved) ''data.txt'') = 2"
    unfolding world_solved_eq(2) by (simp only: line_count_solution_text n)
  have n2: "newlines (content (disk (snd (projr solve_again))) ''data.txt'') = 1"
    unfolding again(1) by (simp only: newlines_append newlines_solution_text n1)
  have l2: "line_count (content (disk (snd (projr solve_again))) ''data.txt'') = 2"
    unfolding again(1) by (simp only: line_count_solution_text n1)
  have grow: "length (content (disk (snd (projr solve_again))) ''data.txt'') =
      length (content (disk world_solved) ''data.txt'') + 17"
    unfolding again(1) by (simp only: length_append len)
  show ?thesis
    using again(2,3) first n1 l1 n2 l2 grow by (simp add: world_solved_eq(1))
qed

text \<open>
  C10. After a match (and with the log open), the function returns 1 and has stored, in
  degrees, the observed right ascension \<open>rob\<close> and declination \<open>dob\<close> that \<^verbatim>\<open>iauAtco13\<close>
  left, and 90 less the observed zenith distance \<open>zob\<close> as the altitude; the record
  written to the log (when \<^verbatim>\<open>fprintf\<close> and \<^verbatim>\<open>fclose\<close> succeed) starts with the number of
  blobs and these two coordinates. The
  coordinates of the centre of the frame are the first two arguments of \<^verbatim>\<open>iauAtco13\<close>,
  in radians, and are stored nowhere.
\<close>

theorem solution_stores_observed_position:
  assumes "solver_run lib (prepare_solver lib env idxs sx sy sm n (astro_params w) (solver w))
             = Some wcs"
    and "fopen_ok env"
  shows "\<exists>w'. lostInSpace lib env idxs sx sy sm n tm_info datafile exposure w = Inr (1, w') \<and>
     observed lib tm_info exposure (astro_params w) wcs =
       snd (iauAtco13 lib
         [c_mul (fst (frame_centre lib wcs)) rad_per_deg,
          c_mul (snd (frame_centre lib wcs)) rad_per_deg,
          Num 0, Num 0, Num 0, Num 0,
          fst (snd (julian_date lib tm_info)),
          c_add (snd (snd (julian_date lib tm_info)))
            (c_div exposure (c_mul (c_mul (Num 2000) (Num 3600)) (Num 24))),
          Num dut1,
          c_mul (longitude (astro_params w)) rad_per_deg,
          c_mul (latitude (astro_params w)) rad_per_deg,
          hm (astro_params w), Num 0, Num 0, Num 0, Num 0, Num 0, Num 0]) \<and>
     ra (astro_params w') =
       c_mul (rob (observed lib tm_info exposure (astro_params w) wcs)) deg_per_rad \<and>
     dec (astro_params w') =
       c_mul (dob (observed lib tm_info exposure (astro_params w) wcs)) deg_per_rad \<and>
     alt (astro_params w') =
       c_sub (Num 90) (c_mul (zob (observed lib tm_info exposure (astro_params w) wcs)) deg_per_rad) \<and>
     (0 \<le> fprintf_ret env \<and> fclose_ret env = 0 \<longrightarrow>
        (\<exists>rest. content (disk w') datafile = content (disk w) datafile @
           [Conv_i n, Lit ''|'',
            Conv_f 6 (c_mul (rob (observed lib tm_info exposure (astro_params w) wcs)) deg_per_rad),
            Lit ''|'',
            Conv_f 6 (c_mul (dob (observed lib tm_info exposure (astro_params w) wcs)) deg_per_rad)]
           @ rest))"
proof -
  have "observed lib tm_info exposure (astro_params w) wcs =
       snd (iauAtco13 lib
         [c_mul (fst (frame_centre lib wcs)) rad_per_deg,
          c_mul (snd (frame_centre lib wcs)) rad_per_deg,
          Num 0, Num 0, Num 0, Num 0,
          fst (snd (julian_date lib tm_info)),
          c_add (snd (snd (julian_date lib tm_info)))
            (c_div exposure (c_mul (c_mul (Num 2000) (Num 3600)) (Num 24))),
          Num dut1,
          c_mul (longitude (astro_params w)) rad_per_deg,
          c_mul (latitude (astro_params w)) rad_per_deg,
          hm (astro_params w), Num 0, Num 0, Num 0, Num 0, Num 0, Num 0])"
    by (simp add: observed_def Let_def)
  then show ?thesis
    unfolding lostInSpace_solved[OF assms]
    by (simp add: solution_def Let_def content_def solution_text_def written_text)
qed

text \<open>
  C10 on a run where the centre of the frame is at 10 and 20 degrees and \<open>rob\<close> is 2
  radians: the stored right ascension is not 10.
\<close>

theorem solution_stores_observed_position_witness:
  "solver_run lib_ex (prepare_solver lib_ex (env_ex (Num (- 200))) [1, 2, 3] (\<lambda>i. Num 0)
      (\<lambda>i. Num 0) (\<lambda>i. Num 0) 0 (astro_params world_ex) (solver world_ex)) = Some (Num 10, Num 20) \<and>
   fopen_ok (env_ex (Num (- 200))) \<and>
   frame_centre lib_ex (Num 10, Num 20) = (Num 10, Num 20) \<and>
   rob (observed lib_ex tm_ex (Num 800) astro_ex (Num 10, Num 20)) = Num 2 \<and>
   (\<exists>w'. solve_ex (Num (- 200)) = Inr (1, w') \<and>
      ra (astro_params w') = Num (2 * (180 / M_PI)) \<and>
      ra (astro_params w') \<noteq> Num 10 \<and>
      dec (astro_params w') = Num (0.125 * (180 / M_PI)) \<and>
      alt (astro_params w') = Num (90 - 0.5 * (180 / M_PI)))"
proof -
  have ob: "observed lib_ex tm_ex (Num 800) astro_ex (Num 10, Num 20) =
      \<lparr>aob = Num 1, zob = Num 0.5, hob = Num 0.25, dob = Num 0.125, rob = Num 2, eo = Num 0\<rparr>"
    by (simp add: observed_def lib_ex_def Let_def)
  have a: "astro_params world_ex = astro_ex"
    by (simp add: world_ex_def)
  have d: "deg_per_rad = Num (180 / M_PI)"
    by (simp add: deg_per_rad_def M_PI_def)
  have fc: "frame_centre lib_ex (Num 10, Num 20) = (Num 10, Num 20)"
    by (simp add: frame_centre_def lib_ex_def)
  have ne: "2 * (180 / M_PI) \<noteq> 10"
    by (simp add: M_PI_def)
  from solution_stores_observed_position[OF solve_ex_solved(1,2), of tm_ex "''data.txt''" "Num 800"]
  show ?thesis
    unfolding solve_ex_def a ob d
    using solve_ex_solved fc ne by (auto simp add: a c_sub_def)
qed

text \<open>
  C2. The claim is that the indexes are chosen by the previous pointing. The loop reads
  the locals \<^verbatim>\<open>ra\<close> and \<^verbatim>\<open>dec\<close>, which hold whatever the stack held. With a previous
  solution at 10 and 20 degrees, of which index 1 alone is within range: locals that
  happen to hold \<open>-200\<close> add all three indexes, and a NaN adds none.
\<close>

theorem indexes_follow_uninitialised_locals:
  "indexes (prepare_solver lib env idxs sx sy sm n a sv) =
     indexes sv @ filter (selected lib (stack_ra env) (stack_dec env)) idxs \<and>
   ra astro_ex = Num 10 \<and> dec astro_ex = Num 20 \<and>
   filter (\<lambda>i. index_is_within_range lib_ex i (ra astro_ex) (dec astro_ex)
                 (dist2deg lib_ex (hprange lib_ex))) [1, 2, 3] = [1] \<and>
   indexes (prepare_solver lib_ex (env_ex (Num (- 200))) [1, 2, 3] (\<lambda>i. Num 0) (\<lambda>i. Num 0)
      (\<lambda>i. Num 0) 0 astro_ex solver_ex) = [1, 2, 3] \<and>
   indexes (prepare_solver lib_ex (env_ex NaN) [1, 2, 3] (\<lambda>i. Num 0) (\<lambda>i. Num 0)
      (\<lambda>i. Num 0) 0 astro_ex solver_ex) = []"
  by (simp add: prepare_solver_indexes selected_def astro_ex_def lib_ex_def env_ex_def
      solver_ex_def c_ge_def c_of_int_def)

end
